theory Spec2Isabelle
  imports Main
begin

section \<open>The evaluater of archai (archai/nas/evaluater.py)\<close>

text \<open>
  The class \<open>Evaluater\<close> builds a model (from a factory function named by a string, or
  from a saved architecture description), trains it and stores metrics and weights. Its
  methods are embedded as functions that return the calls they make, in order, together
  with their outcome (a value or the exception raised).
\<close>

subsection \<open>Python values and exceptions\<close>

text \<open>
  The values that flow through the methods: configuration values (\<open>None\<close>, booleans,
  integers, strings, nested configurations) and the objects of the collaborators (modules,
  functions, models, descriptions, data loaders, metrics), which are opaque here and are
  identified by a number. A Python \<open>str\<close> is a \<open>string\<close>; a configuration keeps
  its keys in order, as a list of pairs.
\<close>

datatype pyval =
    PNone
  | PBool bool
  | PInt int
  | PStr string
  | PDict "(string \<times> pyval) list"
  | PObj nat

text \<open>
  An exception has a class, a message and the exception it was raised from
  (\<open>__cause__\<close>). The messages of the exceptions that Python itself raises (a missing
  key, a missing attribute, a subscript on a value that has none) are shortened to the
  name concerned.
\<close>

datatype exn = Exn (exn_class: string) (exn_msg: string) (exn_cause: "exn option")

text \<open>Python's truth value of an object, as \<open>if x:\<close> and \<open>not x\<close> test it.\<close>

fun truthy :: "pyval \<Rightarrow> bool" where
  "truthy PNone = False"
| "truthy (PBool b) = b"
| "truthy (PInt i) = (i \<noteq> 0)"
| "truthy (PStr s) = (s \<noteq> [])"
| "truthy (PDict kvs) = (kvs \<noteq> [])"
| "truthy (PObj n) = True"

subsection \<open>String methods\<close>

text \<open>\<open>s.startswith(p)\<close>\<close>

fun startswith :: "string \<Rightarrow> string \<Rightarrow> bool" where
  "startswith s [] = True"
| "startswith [] (p # ps) = False"
| "startswith (c # cs) (p # ps) = (c = p \<and> startswith cs ps)"

text \<open>
  \<open>s.rsplit(sep, maxsplit)\<close> for a separator of one character: at most \<open>maxsplit\<close>
  cuts, each at the last separator of what is left; the pieces come in their order in
  \<open>s\<close>.
\<close>

fun rsplit :: "string \<Rightarrow> char \<Rightarrow> nat \<Rightarrow> string list" where
  "rsplit s sep 0 = [s]"
| "rsplit s sep (Suc n) =
     (if sep \<in> set s
      then rsplit (rev (tl (dropWhile (\<lambda>c. c \<noteq> sep) (rev s)))) sep n
             @ [rev (takeWhile (\<lambda>c. c \<noteq> sep) (rev s))]
      else [s])"

subsection \<open>Calls and outcomes\<close>

text \<open>
  What a method does is the list of calls it makes, in order: the methods of
  \<open>Evaluater\<close> entered (\<open>Enter\<close>, with the arguments) and the calls to the
  collaborators, each with its arguments.
\<close>

datatype event =
    Enter string "pyval list"
  | Get_item pyval string
  | Import_module string
  | Get_attr pyval string
  | Invoke pyval
  | Param_size pyval
  | Logger_pushd string
  | Logger_info "(string \<times> pyval) list"
  | Logger_popd
  | ModelDesc_load pyval
  | Builder_build pyval pyval pyval
  | Desc_save pyval pyval
  | Model_init pyval bool bool
  | Cells_len pyval
  | Create_checkpoint pyval pyval
  | Get_data pyval
  | Trainer_init pyval pyval pyval
  | Trainer_fit pyval pyval pyval
  | Metrics_save pyval pyval
  | Full_path pyval
  | Save_model pyval pyval

text \<open>
  A computation is the calls made and then the value returned (\<open>Inr\<close>) or the exception
  raised (\<open>Inl\<close>). Nothing in the file catches an exception: \<open>andthen\<close> stops at the
  first one.
\<close>

type_synonym 'a eff = "event list \<times> (exn + 'a)"

definition trace :: "'a eff \<Rightarrow> event list" where
  "trace m = fst m"

definition outcome :: "'a eff \<Rightarrow> exn + 'a" where
  "outcome m = snd m"

definition ret :: "'a \<Rightarrow> 'a eff" where
  "ret x = ([], Inr x)"

definition raise :: "exn \<Rightarrow> 'a eff" where
  "raise e = ([], Inl e)"

definition emit :: "event \<Rightarrow> unit eff" where
  "emit ev = ([ev], Inr ())"

definition perform :: "event \<Rightarrow> exn + 'a \<Rightarrow> 'a eff" where
  "perform ev r = ([ev], r)"

definition andthen :: "'a eff \<Rightarrow> ('a \<Rightarrow> 'b eff) \<Rightarrow> 'b eff" where
  "andthen m f =
     (case snd m of
        Inl e \<Rightarrow> (fst m, Inl e)
      | Inr x \<Rightarrow> (fst m @ fst (f x), snd (f x)))"

text \<open>\<open>c[key]\<close> on a configuration: a missing key raises \<open>KeyError\<close>.\<close>

definition getitem :: "pyval \<Rightarrow> string \<Rightarrow> pyval eff" where
  "getitem c key =
     perform (Get_item c key)
       (case c of
          PDict kvs \<Rightarrow>
            (case map_of kvs key of
               Some v \<Rightarrow> Inr v
             | None \<Rightarrow> Inl (Exn ''KeyError'' key None))
        | _ \<Rightarrow> Inl (Exn ''TypeError'' ''__getitem__'' None))"

text \<open>
  \<open>xs[i]\<close> on a list: \<open>-1\<close> is the last element, and an index outside the list
  raises \<open>IndexError\<close>.
\<close>

definition index :: "'a list \<Rightarrow> int \<Rightarrow> 'a eff" where
  "index xs i =
     (if 0 \<le> i \<and> i < int (length xs) then ret (xs ! nat i)
      else if i < 0 \<and> - int (length xs) \<le> i then ret (xs ! nat (int (length xs) + i))
      else raise (Exn ''IndexError'' ''list index out of range'' None))"

subsection \<open>The collaborators\<close>

text \<open>
  The modules the file imports are not part of it: each of their operations is a parameter,
  a function from the arguments to the value returned or the exception raised.
  \<open>this_module\<close> is \<open>sys.modules[__name__]\<close>; \<open>call_function f\<close> is \<open>f()\<close>;
  \<open>cells_len model\<close> is \<open>len(model.desc.cell_descs())\<close>. The logger only records.
\<close>

record env =
  import_module :: "string \<Rightarrow> exn + pyval"
  this_module :: pyval
  getattr :: "pyval \<Rightarrow> string \<Rightarrow> exn + pyval"
  call_function :: "pyval \<Rightarrow> exn + pyval"
  param_size :: "pyval \<Rightarrow> exn + pyval"
  load_desc :: "pyval \<Rightarrow> exn + pyval"
  build_desc :: "pyval \<Rightarrow> pyval \<Rightarrow> pyval \<Rightarrow> exn + pyval"
  save_desc :: "pyval \<Rightarrow> pyval \<Rightarrow> exn + pyval"
  new_Model :: "pyval \<Rightarrow> bool \<Rightarrow> bool \<Rightarrow> exn + pyval"
  cells_len :: "pyval \<Rightarrow> exn + pyval"
  create_checkpoint :: "pyval \<Rightarrow> pyval \<Rightarrow> exn + pyval"
  get_data :: "pyval \<Rightarrow> exn + (pyval \<times> pyval \<times> pyval)"
  new_Trainer :: "pyval \<Rightarrow> pyval \<Rightarrow> pyval \<Rightarrow> exn + pyval"
  fit :: "pyval \<Rightarrow> pyval \<Rightarrow> pyval \<Rightarrow> exn + pyval"
  save_metrics :: "pyval \<Rightarrow> pyval \<Rightarrow> exn + pyval"
  full_path :: "pyval \<Rightarrow> exn + pyval"
  save_model :: "pyval \<Rightarrow> pyval \<Rightarrow> exn + pyval"

subsection \<open>The methods of Evaluater\<close>

text \<open>
  \<open>_default_module_name\<close> (lines 70 to 83). \<open>dataset_name\<close> comes from the
  configuration unchecked, and \<open>startswith\<close> is an attribute of strings only;
  \<open>function_name\<close> is the string that \<open>rsplit\<close> produced.
\<close>

definition default_module_name :: "pyval \<Rightarrow> string \<Rightarrow> string eff" where
  "default_module_name dataset_name function_name =
     andthen (emit (Enter ''_default_module_name'' [dataset_name, PStr function_name])) (\<lambda>_.
     case dataset_name of
       PStr d \<Rightarrow>
         (let module_name =
            (if startswith d ''cifar'' then
               (if startswith function_name ''res'' then ''archai.cifar10_models.resnet''
                else if startswith function_name ''dense'' then ''archai.cifar10_models.densenet''
                else [])
             else if startswith d ''imagenet'' \<or> startswith d ''sport8'' then ''torchvision.models''
             else [])
          in if module_name = [] then
               raise (Exn ''NotImplementedError''
                 (''Cannot get default module for '' @ function_name @ '' and dataset '' @ d
                    @ '' because it is not supported yet'') None)
             else ret module_name)
     | _ \<Rightarrow> raise (Exn ''AttributeError'' ''startswith'' None))"

text \<open>
  Lines 129 to 138 of \<open>model_from_factory\<close>: from the module name and the function name
  to the model.
\<close>

definition instantiate :: "env \<Rightarrow> string \<Rightarrow> string \<Rightarrow> pyval eff" where
  "instantiate env module_name function_name =
     andthen (if module_name \<noteq> []
              then perform (Import_module module_name) (import_module env module_name)
              else ret (this_module env)) (\<lambda>module.
     andthen (perform (Get_attr module function_name) (getattr env module function_name)) (\<lambda>func.
     andthen (perform (Invoke func) (call_function env func)) (\<lambda>model.
     andthen (perform (Param_size model) (param_size env model)) (\<lambda>params.
     andthen (emit (Logger_info
                [(''model_factory'', PBool True),
                 (''module_name'', PStr module_name),
                 (''function_name'', PStr function_name),
                 (''params'', params)])) (\<lambda>_.
     ret model)))))"

text \<open>\<open>model_from_factory\<close> (lines 120 to 138); \<open>rsplit\<close> is an attribute of strings.\<close>

definition model_from_factory :: "env \<Rightarrow> pyval \<Rightarrow> pyval \<Rightarrow> pyval eff" where
  "model_from_factory env model_factory_spec dataset_name =
     andthen (emit (Enter ''model_from_factory'' [model_factory_spec, dataset_name])) (\<lambda>_.
     case model_factory_spec of
       PStr s \<Rightarrow>
         (let splitted = rsplit s (CHR ''.'') 1 in
          andthen (index splitted (- 1)) (\<lambda>function_name.
          andthen (if length splitted > 1 then index splitted 0
                   else default_module_name dataset_name function_name) (\<lambda>module_name.
          instantiate env module_name function_name)))
     | _ \<Rightarrow> raise (Exn ''AttributeError'' ''rsplit'' None))"

text \<open>\<open>model_from_desc\<close> (lines 140 and 141).\<close>

definition model_from_desc :: "env \<Rightarrow> pyval \<Rightarrow> pyval eff" where
  "model_from_desc env model_desc =
     andthen (emit (Enter ''model_from_desc'' [model_desc])) (\<lambda>_.
     perform (Model_init model_desc True True) (new_Model env model_desc True True))"

text \<open>
  The region \<open>conf vars\<close> of \<open>create_model\<close> (lines 88 to 95): the dataset name, the
  two file names, the factory spec and the configuration of the description.
\<close>

definition create_model_conf_vars ::
  "pyval \<Rightarrow> pyval \<Rightarrow> pyval \<Rightarrow> (pyval \<times> pyval \<times> pyval \<times> pyval \<times> pyval) eff" where
  "create_model_conf_vars conf_eval final_desc_filename full_desc_filename =
     andthen (getitem conf_eval ''loader'') (\<lambda>conf_loader.
     andthen (getitem conf_loader ''dataset'') (\<lambda>conf_dataset.
     andthen (getitem conf_dataset ''name'') (\<lambda>dataset_name.
     andthen (if \<not> truthy final_desc_filename then
                andthen (getitem conf_eval ''final_desc_filename'') (\<lambda>final.
                andthen (getitem conf_eval ''full_desc_filename'') (\<lambda>full.
                ret (final, full)))
              else ret (final_desc_filename, full_desc_filename))
       (\<lambda>(final_desc_filename, full_desc_filename).
     andthen (getitem conf_eval ''model_factory_spec'') (\<lambda>model_factory_spec.
     andthen (getitem conf_eval ''model_desc'') (\<lambda>conf_model_desc.
     ret (dataset_name, final_desc_filename, full_desc_filename,
          model_factory_spec, conf_model_desc)))))))"

text \<open>
  The log record of the description path (lines 111 to 116 of \<open>create_model\<close>); the
  entries of the dictionary are evaluated in the order they are written.
\<close>

definition log_model_desc :: "env \<Rightarrow> pyval \<Rightarrow> pyval \<Rightarrow> unit eff" where
  "log_model_desc env conf_model_desc model =
     andthen (perform (Cells_len model) (cells_len env model)) (\<lambda>n.
     andthen (getitem conf_model_desc ''init_node_ch'') (\<lambda>init_node_ch.
     andthen (getitem conf_model_desc ''n_cells'') (\<lambda>n_cells.
     andthen (getitem conf_model_desc ''n_reductions'') (\<lambda>n_reductions.
     andthen (getitem conf_model_desc ''n_nodes'') (\<lambda>n_nodes.
     emit (Logger_info
             [(''model_factory'', PBool False),
              (''cells_len'', n),
              (''init_node_ch'', init_node_ch),
              (''n_cells'', n_cells),
              (''n_reductions'', n_reductions),
              (''n_nodes'', n_nodes)]))))))"

text \<open>
  \<open>create_model\<close> (lines 85 to 118). The two file names default to \<open>None\<close>.
\<close>

definition create_model :: "env \<Rightarrow> pyval \<Rightarrow> pyval \<Rightarrow> pyval \<Rightarrow> pyval \<Rightarrow> pyval eff" where
  "create_model env conf_eval model_desc_builder final_desc_filename full_desc_filename =
     andthen (emit (Enter ''create_model''
                [conf_eval, model_desc_builder, final_desc_filename, full_desc_filename])) (\<lambda>_.
     andthen (create_model_conf_vars conf_eval final_desc_filename full_desc_filename)
       (\<lambda>(dataset_name, final_desc_filename, full_desc_filename,
           model_factory_spec, conf_model_desc).
     if truthy model_factory_spec then
       model_from_factory env model_factory_spec dataset_name
     else
       andthen (perform (ModelDesc_load final_desc_filename)
                  (load_desc env final_desc_filename)) (\<lambda>template_model_desc.
       andthen (perform (Builder_build model_desc_builder conf_model_desc template_model_desc)
                  (build_desc env model_desc_builder conf_model_desc template_model_desc))
         (\<lambda>model_desc.
       andthen (perform (Desc_save model_desc full_desc_filename)
                  (save_desc env model_desc full_desc_filename)) (\<lambda>_.
       andthen (model_from_desc env model_desc) (\<lambda>model.
       andthen (log_model_desc env conf_model_desc model) (\<lambda>_.
       ret model)))))))"

text \<open>
  \<open>train_model\<close> (lines 57 to 68). The \<open>assert\<close> statement is executed: the
  interpreter does not run with assertions switched off.
\<close>

definition train_model :: "env \<Rightarrow> pyval \<Rightarrow> pyval \<Rightarrow> pyval \<Rightarrow> pyval eff" where
  "train_model env conf_train model checkpoint =
     andthen (emit (Enter ''train_model'' [conf_train, model, checkpoint])) (\<lambda>_.
     andthen (getitem conf_train ''loader'') (\<lambda>conf_loader.
     andthen (getitem conf_train ''trainer'') (\<lambda>conf_trainer.
     andthen (perform (Get_data conf_loader) (get_data env conf_loader))
       (\<lambda>(train_dl, _, test_dl).
     if train_dl \<noteq> PNone \<and> test_dl \<noteq> PNone then
       andthen (perform (Trainer_init conf_trainer model checkpoint)
                  (new_Trainer env conf_trainer model checkpoint)) (\<lambda>trainer.
       perform (Trainer_fit trainer train_dl test_dl) (fit env trainer train_dl test_dl))
     else raise (Exn ''AssertionError'' [] None)))))"

text \<open>The region \<open>conf vars\<close> of \<open>evaluate\<close> (lines 33 to 37).\<close>

definition evaluate_conf_vars :: "pyval \<Rightarrow> (pyval \<times> pyval \<times> pyval \<times> pyval) eff" where
  "evaluate_conf_vars conf_eval =
     andthen (getitem conf_eval ''checkpoint'') (\<lambda>conf_checkpoint.
     andthen (getitem conf_eval ''resume'') (\<lambda>resume.
     andthen (getitem conf_eval ''model_filename'') (\<lambda>model_filename.
     andthen (getitem conf_eval ''metric_filename'') (\<lambda>metric_filename.
     ret (conf_checkpoint, resume, model_filename, metric_filename)))))"

text \<open>\<open>evaluate\<close> (lines 29 to 55).\<close>

definition evaluate :: "env \<Rightarrow> pyval \<Rightarrow> pyval \<Rightarrow> pyval eff" where
  "evaluate env conf_eval model_desc_builder =
     andthen (emit (Enter ''evaluate'' [conf_eval, model_desc_builder])) (\<lambda>_.
     andthen (emit (Logger_pushd ''eval_arch'')) (\<lambda>_.
     andthen (evaluate_conf_vars conf_eval)
       (\<lambda>(conf_checkpoint, resume, model_filename, metric_filename).
     andthen (create_model env conf_eval model_desc_builder PNone PNone) (\<lambda>model.
     andthen (perform (Create_checkpoint conf_checkpoint resume)
                (create_checkpoint env conf_checkpoint resume)) (\<lambda>checkpoint.
     andthen (train_model env conf_eval model checkpoint) (\<lambda>train_metrics.
     andthen (perform (Metrics_save train_metrics metric_filename)
                (save_metrics env train_metrics metric_filename)) (\<lambda>_.
     andthen (if truthy model_filename then
                andthen (perform (Full_path model_filename) (full_path env model_filename))
                  (\<lambda>model_filename.
                andthen (perform (Save_model model model_filename)
                           (save_model env model model_filename)) (\<lambda>_.
                ret model_filename))
              else ret model_filename) (\<lambda>model_filename.
     andthen (emit (Logger_info [(''model_save_path'', model_filename)])) (\<lambda>_.
     andthen (emit Logger_popd) (\<lambda>_.
     ret train_metrics))))))))))"

subsection \<open>A run to evaluate on\<close>

text \<open>
  Collaborators that succeed, each returning an object of its own, but for the evaluater's
  own module, which defines no factory function; and a configuration with every key the
  methods read, for the dataset \<open>cifar10\<close>.
\<close>

definition sample_env :: env where
  "sample_env =
     \<lparr> import_module = (\<lambda>name. Inr (PObj 1)),
       this_module = PObj 0,
       getattr = (\<lambda>module name.
         if module = PObj 0 then Inl (Exn ''AttributeError'' name None) else Inr (PObj 2)),
       call_function = (\<lambda>func. Inr (PObj 3)),
       param_size = (\<lambda>model. Inr (PInt 21282122)),
       load_desc = (\<lambda>filename. Inr (PObj 4)),
       build_desc = (\<lambda>builder conf template. Inr (PObj 5)),
       save_desc = (\<lambda>desc filename. Inr PNone),
       new_Model = (\<lambda>desc droppath affine. Inr (PObj 6)),
       cells_len = (\<lambda>model. Inr (PInt 20)),
       create_checkpoint = (\<lambda>conf resume. Inr (PObj 7)),
       get_data = (\<lambda>conf. Inr (PObj 8, PNone, PObj 9)),
       new_Trainer = (\<lambda>conf model checkpoint. Inr (PObj 10)),
       fit = (\<lambda>trainer train_dl test_dl. Inr (PObj 11)),
       save_metrics = (\<lambda>metrics filename. Inr PNone),
       full_path = (\<lambda>filename.
         case filename of
           PStr name \<Rightarrow> Inr (PStr (''/work/'' @ name))
         | _ \<Rightarrow> Inl (Exn ''TypeError'' ''full_path'' None)),
       save_model = (\<lambda>model filename. Inr PNone) \<rparr>"

definition sample_model_desc :: pyval where
  "sample_model_desc =
     PDict [(''init_node_ch'', PInt 36), (''n_cells'', PInt 20),
            (''n_reductions'', PInt 2), (''n_nodes'', PInt 4)]"

definition sample_loader :: pyval where
  "sample_loader = PDict [(''dataset'', PDict [(''name'', PStr ''cifar10'')])]"

definition sample_conf :: "string \<Rightarrow> string \<Rightarrow> pyval" where
  "sample_conf model_factory_spec model_filename =
     PDict [(''checkpoint'', PDict []), (''resume'', PBool True),
            (''model_filename'', PStr model_filename),
            (''metric_filename'', PStr ''metrics.yaml''),
            (''final_desc_filename'', PStr ''final.yaml''),
            (''full_desc_filename'', PStr ''full.yaml''),
            (''model_factory_spec'', PStr model_factory_spec),
            (''model_desc'', sample_model_desc),
            (''loader'', sample_loader),
            (''trainer'', PDict [])]"

text \<open>The same collaborators, but the factory function raises when it is called.\<close>

definition failing_factory_env :: env where
  "failing_factory_env =
     sample_env \<lparr> call_function :=
       (\<lambda>func. Inl (Exn ''RuntimeError'' ''CUDA out of memory'' None)) \<rparr>"

text \<open>The same collaborators, but the data has no test iterator.\<close>

definition no_test_data_env :: env where
  "no_test_data_env = sample_env \<lparr> get_data := (\<lambda>conf. Inr (PObj 8, PNone, PNone)) \<rparr>"

subsection \<open>The two ways to a model\<close>

text \<open>
  The calls of the factory path (\<open>model_from_factory\<close> and what it calls) and those of
  the description path (loading, building and saving a description, and the model built
  from it).
\<close>

fun factory_path_event :: "event \<Rightarrow> bool" where
  "factory_path_event (Enter name args) =
     (name = ''model_from_factory'' \<or> name = ''_default_module_name'')"
| "factory_path_event (Import_module name) = True"
| "factory_path_event (Get_attr module name) = True"
| "factory_path_event (Invoke func) = True"
| "factory_path_event (Param_size model) = True"
| "factory_path_event (Logger_info d) = (map_of d ''model_factory'' = Some (PBool True))"
| "factory_path_event ev = False"

fun desc_path_event :: "event \<Rightarrow> bool" where
  "desc_path_event (Enter name args) = (name = ''model_from_desc'')"
| "desc_path_event (ModelDesc_load filename) = True"
| "desc_path_event (Builder_build builder conf template) = True"
| "desc_path_event (Desc_save desc filename) = True"
| "desc_path_event (Model_init desc droppath affine) = True"
| "desc_path_event (Cells_len model) = True"
| "desc_path_event (Logger_info d) = (map_of d ''model_factory'' = Some (PBool False))"
| "desc_path_event ev = False"

text \<open>
  What section 4.2 of the specification asks of a failure of the factory call: the exception
  that reaches the caller is a \<open>ModelConstructionFailed\<close> that wraps the original one.
\<close>

definition spec_ModelConstructionFailed :: "exn \<Rightarrow> exn \<Rightarrow> bool" where
  "spec_ModelConstructionFailed raised original =
     (exn_class raised = ''ModelConstructionFailed'' \<and> exn_cause raised = Some original)"

section \<open>Properties\<close>

subsection \<open>Strings\<close>

lemma startswith_iff: "startswith s p \<longleftrightarrow> (\<exists>t. s = p @ t)"
  by (induction s p rule: startswith.induct) auto

subsection \<open>Sequencing\<close>

lemma trace_pair [simp]: "trace (t, r) = t"
  by (simp add: trace_def)

lemma outcome_pair [simp]: "outcome (t, r) = r"
  by (simp add: outcome_def)

lemma andthen_ret [simp]: "andthen (ret x) f = f x"
  by (simp add: andthen_def ret_def)

lemma andthen_raise [simp]: "andthen (raise e) f = raise e"
  by (simp add: andthen_def raise_def)

lemma trace_andthen:
  "trace (andthen m f) = trace m @ (case outcome m of Inl e \<Rightarrow> [] | Inr x \<Rightarrow> trace (f x))"
  by (simp add: andthen_def trace_def outcome_def split: sum.splits)

lemma outcome_andthen:
  "outcome (andthen m f) = (case outcome m of Inl e \<Rightarrow> Inl e | Inr x \<Rightarrow> outcome (f x))"
  by (simp add: andthen_def outcome_def split: sum.splits)

lemma trace_ret [simp]: "trace (ret x) = []"
  by (simp add: ret_def)

lemma outcome_ret [simp]: "outcome (ret x) = Inr x"
  by (simp add: ret_def)

lemma trace_raise [simp]: "trace (raise e) = []"
  by (simp add: raise_def)

lemma outcome_raise [simp]: "outcome (raise e) = Inl e"
  by (simp add: raise_def)

lemma trace_emit [simp]: "trace (emit ev) = [ev]"
  by (simp add: emit_def)

lemma outcome_emit [simp]: "outcome (emit ev) = Inr ()"
  by (simp add: emit_def)

lemma trace_perform [simp]: "trace (perform ev r) = [ev]"
  by (simp add: perform_def)

lemma outcome_perform [simp]: "outcome (perform ev r) = r"
  by (simp add: perform_def)

lemma eff_eqI: "trace m = trace m' \<Longrightarrow> outcome m = outcome m' \<Longrightarrow> m = m'"
  by (simp add: trace_def outcome_def prod_eq_iff)

subsection \<open>Splitting the factory spec\<close>

lemma rsplit_last_sep:
  assumes "sep \<notin> set f"
  shows "rsplit (m @ sep # f) sep (Suc 0) = [m, f]"
proof -
  have d: "dropWhile (\<lambda>c. c \<noteq> sep) (rev f) = []" using assms by auto
  have k: "takeWhile (\<lambda>c. c \<noteq> sep) (rev f) = rev f" using assms by auto
  show ?thesis by (simp add: d k dropWhile_append takeWhile_append)
qed

lemma rsplit_no_sep: "sep \<notin> set s \<Longrightarrow> rsplit s sep n = [s]"
  by (cases n) simp_all

lemma model_from_factory_dot:
  assumes "CHR ''.'' \<notin> set f"
  shows "model_from_factory env (PStr (m @ CHR ''.'' # f)) ds =
     andthen (emit (Enter ''model_from_factory'' [PStr (m @ CHR ''.'' # f), ds]))
       (\<lambda>_. instantiate env m f)"
  by (simp add: model_from_factory_def rsplit_last_sep [OF assms] index_def del: rsplit.simps)

lemma model_from_factory_no_dot:
  assumes "CHR ''.'' \<notin> set s"
  shows "model_from_factory env (PStr s) ds =
     andthen (emit (Enter ''model_from_factory'' [PStr s, ds]))
       (\<lambda>_. andthen (default_module_name ds s) (\<lambda>module_name. instantiate env module_name s))"
  by (simp add: model_from_factory_def rsplit_no_sep [OF assms] index_def del: rsplit.simps)

subsection \<open>The default module\<close>

lemma not_both_prefixes:
  "startswith d ''cifar'' \<Longrightarrow> \<not> startswith d ''imagenet'' \<and> \<not> startswith d ''sport8''"
  by (auto simp: startswith_iff)

lemma not_res_and_dense: "startswith f ''res'' \<Longrightarrow> \<not> startswith f ''dense''"
  by (auto simp: startswith_iff)

text \<open>
  C2: for every dataset name and function name, \<open>_default_module_name\<close> returns
  \<open>archai.cifar10_models.resnet\<close> when the dataset name starts with \<open>cifar\<close> and the
  function name with \<open>res\<close>, \<open>archai.cifar10_models.densenet\<close> when the dataset name
  starts with \<open>cifar\<close> and the function name with \<open>dense\<close>, \<open>torchvision.models\<close>
  when the dataset name starts with \<open>imagenet\<close> or \<open>sport8\<close>, whatever the function
  name; in every other case it raises \<open>NotImplementedError\<close> (the unsupported
  configuration), with a message that names the function name and the dataset name.
\<close>

theorem default_module_name_result:
  "(startswith d ''cifar'' \<and> startswith f ''res'' \<longrightarrow>
      outcome (default_module_name (PStr d) f) = Inr ''archai.cifar10_models.resnet'') \<and>
   (startswith d ''cifar'' \<and> startswith f ''dense'' \<longrightarrow>
      outcome (default_module_name (PStr d) f) = Inr ''archai.cifar10_models.densenet'') \<and>
   (startswith d ''imagenet'' \<or> startswith d ''sport8'' \<longrightarrow>
      outcome (default_module_name (PStr d) f) = Inr ''torchvision.models'') \<and>
   (\<not> (startswith d ''cifar'' \<and> startswith f ''res'') \<and>
    \<not> (startswith d ''cifar'' \<and> startswith f ''dense'') \<and>
    \<not> (startswith d ''imagenet'' \<or> startswith d ''sport8'') \<longrightarrow>
      outcome (default_module_name (PStr d) f) =
        Inl (Exn ''NotImplementedError''
          (''Cannot get default module for '' @ f @ '' and dataset '' @ d
             @ '' because it is not supported yet'') None))"
  using not_both_prefixes [of d] not_res_and_dense [of f]
  by (auto simp: default_module_name_def outcome_andthen Let_def)

theorem default_module_name_result_witness:
  "outcome (default_module_name (PStr ''cifar10'') ''resnext50'') =
     Inr ''archai.cifar10_models.resnet'' \<and>
   outcome (default_module_name (PStr ''cifar100'') ''densenet121'') =
     Inr ''archai.cifar10_models.densenet'' \<and>
   outcome (default_module_name (PStr ''imagenet'') ''densenet121'') =
     Inr ''torchvision.models'' \<and>
   outcome (default_module_name (PStr ''sport8'') ''vgg16'') =
     Inr ''torchvision.models'' \<and>
   outcome (default_module_name (PStr ''cifar10'') ''vgg16'') =
     Inl (Exn ''NotImplementedError''
       ''Cannot get default module for vgg16 and dataset cifar10 because it is not supported yet''
       None) \<and>
   outcome (default_module_name (PStr ''mnist'') ''resnet34'') =
     Inl (Exn ''NotImplementedError''
       ''Cannot get default module for resnet34 and dataset mnist because it is not supported yet''
       None)"
  using default_module_name_result [of "''cifar10''" "''resnext50''"]
    default_module_name_result [of "''cifar100''" "''densenet121''"]
    default_module_name_result [of "''imagenet''" "''densenet121''"]
    default_module_name_result [of "''sport8''" "''vgg16''"]
    default_module_name_result [of "''cifar10''" "''vgg16''"]
    default_module_name_result [of "''mnist''" "''resnet34''"]
  by simp

subsection \<open>Resolving a factory spec\<close>

lemma spec_with_dot:
  "CHR ''.'' \<in> set s \<Longrightarrow> \<exists>m f. s = m @ CHR ''.'' # f \<and> CHR ''.'' \<notin> set f"
  by (rule split_list_last)

text \<open>
  C3: for every factory spec that contains a \<open>.\<close>, \<open>model_from_factory\<close> splits
  it at the last \<open>.\<close>: the module name is everything before that dot and the function
  name everything after it (\<open>a.b.resnet34\<close> gives module \<open>a.b\<close> and function
  \<open>resnet34\<close>). For a spec with no \<open>.\<close> the split has one piece: the whole spec
  is the function name and the spec gives no module part.
\<close>

theorem model_from_factory_split:
  "(CHR ''.'' \<in> set s \<longrightarrow>
      (\<exists>m f. s = m @ CHR ''.'' # f \<and> CHR ''.'' \<notin> set f \<and>
         rsplit s (CHR ''.'') 1 = [m, f] \<and>
         model_from_factory env (PStr s) ds =
           andthen (emit (Enter ''model_from_factory'' [PStr s, ds]))
             (\<lambda>_. instantiate env m f))) \<and>
   (CHR ''.'' \<notin> set s \<longrightarrow>
      rsplit s (CHR ''.'') 1 = [s] \<and>
      model_from_factory env (PStr s) ds =
        andthen (emit (Enter ''model_from_factory'' [PStr s, ds]))
          (\<lambda>_. andthen (default_module_name ds s)
             (\<lambda>module_name. instantiate env module_name s)))"
proof (intro conjI impI)
  assume "CHR ''.'' \<in> set s"
  then obtain m f where s: "s = m @ CHR ''.'' # f" and f: "CHR ''.'' \<notin> set f"
    using spec_with_dot by blast
  have "rsplit s (CHR ''.'') 1 = [m, f]"
    using rsplit_last_sep [OF f, of m] by (simp add: s del: rsplit.simps)
  moreover have "model_from_factory env (PStr s) ds =
      andthen (emit (Enter ''model_from_factory'' [PStr s, ds])) (\<lambda>_. instantiate env m f)"
    using model_from_factory_dot [OF f, of env m ds] by (simp add: s)
  ultimately show "\<exists>m f. s = m @ CHR ''.'' # f \<and> CHR ''.'' \<notin> set f \<and>
         rsplit s (CHR ''.'') 1 = [m, f] \<and>
         model_from_factory env (PStr s) ds =
           andthen (emit (Enter ''model_from_factory'' [PStr s, ds]))
             (\<lambda>_. instantiate env m f)"
    using s f by blast
next
  assume "CHR ''.'' \<notin> set s"
  then show "rsplit s (CHR ''.'') 1 = [s]"
    by (rule rsplit_no_sep)
next
  assume "CHR ''.'' \<notin> set s"
  then show "model_from_factory env (PStr s) ds =
        andthen (emit (Enter ''model_from_factory'' [PStr s, ds]))
          (\<lambda>_. andthen (default_module_name ds s)
             (\<lambda>module_name. instantiate env module_name s))"
    by (rule model_from_factory_no_dot)
qed

theorem model_from_factory_split_witness:
  "rsplit ''a.b.resnet34'' (CHR ''.'') 1 = [''a.b'', ''resnet34''] \<and>
   model_from_factory sample_env (PStr ''a.b.resnet34'') (PStr ''cifar10'') =
     andthen (emit (Enter ''model_from_factory'' [PStr ''a.b.resnet34'', PStr ''cifar10'']))
       (\<lambda>_. instantiate sample_env ''a.b'' ''resnet34'') \<and>
   rsplit ''resnet34'' (CHR ''.'') 1 = [''resnet34''] \<and>
   model_from_factory sample_env (PStr ''resnet34'') (PStr ''cifar10'') =
     andthen (emit (Enter ''model_from_factory'' [PStr ''resnet34'', PStr ''cifar10'']))
       (\<lambda>_. andthen (default_module_name (PStr ''cifar10'') ''resnet34'')
          (\<lambda>module_name. instantiate sample_env module_name ''resnet34''))"
proof -
  have d: "CHR ''.'' \<in> set ''a.b.resnet34''" by simp
  have n: "CHR ''.'' \<notin> set ''resnet34''" by simp
  have r: "rsplit ''a.b.resnet34'' (CHR ''.'') 1 = [''a.b'', ''resnet34'']" by simp
  from model_from_factory_split [of "''a.b.resnet34''" sample_env "PStr ''cifar10''"] d
  obtain m f where "rsplit ''a.b.resnet34'' (CHR ''.'') 1 = [m, f]"
    and e: "model_from_factory sample_env (PStr ''a.b.resnet34'') (PStr ''cifar10'') =
      andthen (emit (Enter ''model_from_factory'' [PStr ''a.b.resnet34'', PStr ''cifar10'']))
        (\<lambda>_. instantiate sample_env m f)"
    by blast
  with r have "m = ''a.b''" "f = ''resnet34''" by simp_all
  with e r show ?thesis
    using model_from_factory_split [of "''resnet34''" sample_env "PStr ''cifar10''"] n
    by simp
qed




lemma trace_default_module_name:
  "trace (default_module_name ds f) = [Enter ''_default_module_name'' [ds, PStr f]]"
  by (cases ds) (simp_all add: default_module_name_def trace_andthen Let_def)

lemma default_module_name_nonempty:
  "outcome (default_module_name ds f) = Inr m \<Longrightarrow> m \<noteq> []"
  by (cases ds) (auto simp: default_module_name_def outcome_andthen Let_def split: if_splits)

lemma trace_instantiate:
  "trace (instantiate env m f) =
     (if m \<noteq> [] then [Import_module m] else []) @
     (case (if m \<noteq> [] then import_module env m else Inr (this_module env)) of
        Inl e \<Rightarrow> []
      | Inr module \<Rightarrow>
          Get_attr module f #
          (case getattr env module f of
             Inl e \<Rightarrow> []
           | Inr func \<Rightarrow>
               Invoke func #
               (case call_function env func of
                  Inl e \<Rightarrow> []
                | Inr model \<Rightarrow>
                    Param_size model #
                    (case param_size env model of
                       Inl e \<Rightarrow> []
                     | Inr params \<Rightarrow>
                         [Logger_info
                            [(''model_factory'', PBool True), (''module_name'', PStr m),
                             (''function_name'', PStr f), (''params'', params)]]))))"
  by (simp add: instantiate_def trace_andthen outcome_andthen split: sum.splits)

lemma outcome_instantiate:
  "outcome (instantiate env m f) =
     (case (if m \<noteq> [] then import_module env m else Inr (this_module env)) of
        Inl e \<Rightarrow> Inl e
      | Inr module \<Rightarrow>
          (case getattr env module f of
             Inl e \<Rightarrow> Inl e
           | Inr func \<Rightarrow>
               (case call_function env func of
                  Inl e \<Rightarrow> Inl e
                | Inr model \<Rightarrow>
                    (case param_size env model of
                       Inl e \<Rightarrow> Inl e
                     | Inr params \<Rightarrow> Inr model))))"
  by (simp add: instantiate_def outcome_andthen split: sum.splits)

text \<open>
  C1, as amended: for every factory spec that contains no \<open>.\<close>,
  \<open>model_from_factory\<close> calls \<open>_default_module_name\<close> with the dataset name and
  the function name (the whole spec); when that raises, the exception is the outcome and
  nothing is imported; when it returns a module name, the name is not empty and the next
  call imports that module, which is then used to build the model.
\<close>

theorem factory_without_dot_resolves_default:
  assumes "CHR ''.'' \<notin> set s"
  shows "trace (default_module_name ds s) = [Enter ''_default_module_name'' [ds, PStr s]] \<and>
    (\<forall>e. outcome (default_module_name ds s) = Inl e \<longrightarrow>
       model_from_factory env (PStr s) ds =
         ([Enter ''model_from_factory'' [PStr s, ds],
           Enter ''_default_module_name'' [ds, PStr s]], Inl e)) \<and>
    (\<forall>m. outcome (default_module_name ds s) = Inr m \<longrightarrow>
       m \<noteq> [] \<and>
       take 3 (trace (model_from_factory env (PStr s) ds)) =
         [Enter ''model_from_factory'' [PStr s, ds],
          Enter ''_default_module_name'' [ds, PStr s],
          Import_module m] \<and>
       model_from_factory env (PStr s) ds =
         (Enter ''model_from_factory'' [PStr s, ds] #
          Enter ''_default_module_name'' [ds, PStr s] # trace (instantiate env m s),
          outcome (instantiate env m s)))"
proof (intro conjI allI impI)
  show "trace (default_module_name ds s) = [Enter ''_default_module_name'' [ds, PStr s]]"
    by (rule trace_default_module_name)
next
  fix e assume "outcome (default_module_name ds s) = Inl e"
  then show "model_from_factory env (PStr s) ds =
         ([Enter ''model_from_factory'' [PStr s, ds],
           Enter ''_default_module_name'' [ds, PStr s]], Inl e)"
    by (intro eff_eqI)
      (simp_all add: model_from_factory_no_dot [OF assms] trace_andthen outcome_andthen
        trace_default_module_name)
next
  fix m assume m: "outcome (default_module_name ds s) = Inr m"
  then show ne: "m \<noteq> []" by (rule default_module_name_nonempty)
  show full: "model_from_factory env (PStr s) ds =
         (Enter ''model_from_factory'' [PStr s, ds] #
          Enter ''_default_module_name'' [ds, PStr s] # trace (instantiate env m s),
          outcome (instantiate env m s))"
    using m
    by (intro eff_eqI)
      (simp_all add: model_from_factory_no_dot [OF assms] trace_andthen outcome_andthen
        trace_default_module_name)
  show "take 3 (trace (model_from_factory env (PStr s) ds)) =
         [Enter ''model_from_factory'' [PStr s, ds],
          Enter ''_default_module_name'' [ds, PStr s],
          Import_module m]"
    using ne by (simp add: full trace_instantiate numeral_3_eq_3)
qed

theorem factory_without_dot_resolves_default_witness:
  "outcome (default_module_name (PStr ''cifar10'') ''resnet34'') =
     Inr ''archai.cifar10_models.resnet'' \<and>
   take 3 (trace (model_from_factory sample_env (PStr ''resnet34'') (PStr ''cifar10''))) =
     [Enter ''model_from_factory'' [PStr ''resnet34'', PStr ''cifar10''],
      Enter ''_default_module_name'' [PStr ''cifar10'', PStr ''resnet34''],
      Import_module ''archai.cifar10_models.resnet''] \<and>
   outcome (default_module_name (PStr ''mnist'') ''resnet34'') =
     Inl (Exn ''NotImplementedError''
       ''Cannot get default module for resnet34 and dataset mnist because it is not supported yet''
       None) \<and>
   model_from_factory sample_env (PStr ''resnet34'') (PStr ''mnist'') =
     ([Enter ''model_from_factory'' [PStr ''resnet34'', PStr ''mnist''],
       Enter ''_default_module_name'' [PStr ''mnist'', PStr ''resnet34'']],
      Inl (Exn ''NotImplementedError''
       ''Cannot get default module for resnet34 and dataset mnist because it is not supported yet''
       None))"
proof -
  have n: "CHR ''.'' \<notin> set ''resnet34''" by simp
  have a: "outcome (default_module_name (PStr ''cifar10'') ''resnet34'') =
     Inr ''archai.cifar10_models.resnet''"
    by (simp add: default_module_name_def outcome_andthen)
  have b: "outcome (default_module_name (PStr ''mnist'') ''resnet34'') =
     Inl (Exn ''NotImplementedError''
       ''Cannot get default module for resnet34 and dataset mnist because it is not supported yet''
       None)"
    by (simp add: default_module_name_def outcome_andthen)
  note c = factory_without_dot_resolves_default [OF n, of "PStr ''cifar10''" sample_env]
  note d = factory_without_dot_resolves_default [OF n, of "PStr ''mnist''" sample_env]
  from c a have "take 3 (trace (model_from_factory sample_env (PStr ''resnet34'') (PStr ''cifar10''))) =
     [Enter ''model_from_factory'' [PStr ''resnet34'', PStr ''cifar10''],
      Enter ''_default_module_name'' [PStr ''cifar10'', PStr ''resnet34''],
      Import_module ''archai.cifar10_models.resnet'']"
    by blast
  moreover from d b have "model_from_factory sample_env (PStr ''resnet34'') (PStr ''mnist'') =
     ([Enter ''model_from_factory'' [PStr ''resnet34'', PStr ''mnist''],
       Enter ''_default_module_name'' [PStr ''mnist'', PStr ''resnet34'']],
      Inl (Exn ''NotImplementedError''
       ''Cannot get default module for resnet34 and dataset mnist because it is not supported yet''
       None))"
    by blast
  ultimately show ?thesis using a b by blast
qed

text \<open>
  C1 as stated fails for a spec whose module part is empty while a dot is present: on
  \<open>.resnet34\<close> the split gives an empty module part, and the only call made is the
  attribute lookup on the evaluater's own module, which raises;
  \<open>_default_module_name\<close> is not called and nothing is imported.
\<close>

theorem empty_module_part_counterexample:
  "rsplit ''.resnet34'' (CHR ''.'') 1 = [[], ''resnet34''] \<and>
   model_from_factory sample_env (PStr ''.resnet34'') (PStr ''cifar10'') =
     ([Enter ''model_from_factory'' [PStr ''.resnet34'', PStr ''cifar10''],
       Get_attr (PObj 0) ''resnet34''],
      Inl (Exn ''AttributeError'' ''resnet34'' None))"
proof -
  have f: "CHR ''.'' \<notin> set ''resnet34''" by simp
  have "model_from_factory sample_env (PStr ''.resnet34'') (PStr ''cifar10'') =
      andthen (emit (Enter ''model_from_factory'' [PStr ''.resnet34'', PStr ''cifar10'']))
        (\<lambda>_. instantiate sample_env [] ''resnet34'')"
    using model_from_factory_dot [OF f, of sample_env "[]" "PStr ''cifar10''"] by simp
  then show ?thesis
    by (intro conjI eff_eqI)
      (simp_all add: trace_andthen outcome_andthen trace_instantiate outcome_instantiate
        sample_env_def)
qed

text \<open>
  C9: for a factory spec that is a \<open>.\<close> followed by a function name without dots
  (the last-dot split gives an empty module part), \<open>model_from_factory\<close> does not
  call \<open>_default_module_name\<close>, imports no module, and looks the function name up on
  the evaluater's own module, \<open>sys.modules[__name__]\<close>.
\<close>

theorem factory_with_empty_module_uses_own_module:
  assumes "CHR ''.'' \<notin> set f"
  shows "(\<forall>args. Enter ''_default_module_name'' args \<notin>
            set (trace (model_from_factory env (PStr (CHR ''.'' # f)) ds))) \<and>
    (\<forall>m. Import_module m \<notin> set (trace (model_from_factory env (PStr (CHR ''.'' # f)) ds))) \<and>
    take 2 (trace (model_from_factory env (PStr (CHR ''.'' # f)) ds)) =
      [Enter ''model_from_factory'' [PStr (CHR ''.'' # f), ds],
       Get_attr (this_module env) f] \<and>
    model_from_factory env (PStr (CHR ''.'' # f)) ds =
      andthen (emit (Enter ''model_from_factory'' [PStr (CHR ''.'' # f), ds]))
        (\<lambda>_. instantiate env [] f)"
proof -
  have e: "model_from_factory env (PStr (CHR ''.'' # f)) ds =
      andthen (emit (Enter ''model_from_factory'' [PStr (CHR ''.'' # f), ds]))
        (\<lambda>_. instantiate env [] f)"
    using model_from_factory_dot [OF assms, of env "[]" ds] by simp
  have t: "trace (model_from_factory env (PStr (CHR ''.'' # f)) ds) =
      Enter ''model_from_factory'' [PStr (CHR ''.'' # f), ds] # trace (instantiate env [] f)"
    by (simp add: e trace_andthen)
  have "\<forall>args. Enter ''_default_module_name'' args \<notin>
            set (trace (model_from_factory env (PStr (CHR ''.'' # f)) ds))"
    by (simp add: t trace_instantiate split: sum.splits)
  moreover have "\<forall>m. Import_module m \<notin>
            set (trace (model_from_factory env (PStr (CHR ''.'' # f)) ds))"
    by (simp add: t trace_instantiate split: sum.splits)
  moreover have "take 2 (trace (model_from_factory env (PStr (CHR ''.'' # f)) ds)) =
      [Enter ''model_from_factory'' [PStr (CHR ''.'' # f), ds],
       Get_attr (this_module env) f]"
    by (simp add: t trace_instantiate numeral_2_eq_2)
  ultimately show ?thesis using e by blast
qed

theorem factory_with_empty_module_uses_own_module_witness:
  "Enter ''_default_module_name'' [PStr ''cifar10'', PStr ''resnet34''] \<notin>
     set (trace (model_from_factory sample_env (PStr ''.resnet34'') (PStr ''cifar10''))) \<and>
   Import_module ''archai.cifar10_models.resnet'' \<notin>
     set (trace (model_from_factory sample_env (PStr ''.resnet34'') (PStr ''cifar10''))) \<and>
   take 2 (trace (model_from_factory sample_env (PStr ''.resnet34'') (PStr ''cifar10''))) =
      [Enter ''model_from_factory'' [PStr ''.resnet34'', PStr ''cifar10''],
       Get_attr (PObj 0) ''resnet34'']"
proof -
  have f: "CHR ''.'' \<notin> set ''resnet34''" by simp
  have h: "this_module sample_env = PObj 0" by (simp add: sample_env_def)
  note t = factory_with_empty_module_uses_own_module [OF f, of sample_env "PStr ''cifar10''"]
  from t have "Enter ''_default_module_name'' [PStr ''cifar10'', PStr ''resnet34''] \<notin>
     set (trace (model_from_factory sample_env (PStr ''.resnet34'') (PStr ''cifar10'')))"
    by blast
  moreover from t have "Import_module ''archai.cifar10_models.resnet'' \<notin>
     set (trace (model_from_factory sample_env (PStr ''.resnet34'') (PStr ''cifar10'')))"
    by blast
  moreover from t have "take 2 (trace (model_from_factory sample_env (PStr ''.resnet34'') (PStr ''cifar10''))) =
      [Enter ''model_from_factory'' [PStr ''.resnet34'', PStr ''cifar10''],
       Get_attr (this_module sample_env) ''resnet34'']"
    by blast
  ultimately show ?thesis by (simp add: h)
qed

subsection \<open>The calls a method can make\<close>

lemma instantiate_factory_raises:
  assumes "Invoke func \<in> set (trace (instantiate env m f))"
    and "call_function env func = Inl e"
  shows "outcome (instantiate env m f) = Inl e \<and> last (trace (instantiate env m f)) = Invoke func"
  using assms
  by (auto simp: trace_instantiate outcome_instantiate split: sum.splits if_splits)

lemma failing_factory_run:
  "model_from_factory failing_factory_env (PStr ''torchvision.models.resnet18'') (PStr ''imagenet'') =
     ([Enter ''model_from_factory'' [PStr ''torchvision.models.resnet18'', PStr ''imagenet''],
       Import_module ''torchvision.models'', Get_attr (PObj 1) ''resnet18'', Invoke (PObj 2)],
      Inl (Exn ''RuntimeError'' ''CUDA out of memory'' None))"
proof -
  have f: "CHR ''.'' \<notin> set ''resnet18''" by simp
  have "model_from_factory failing_factory_env (PStr ''torchvision.models.resnet18'') (PStr ''imagenet'') =
      andthen (emit (Enter ''model_from_factory''
                 [PStr ''torchvision.models.resnet18'', PStr ''imagenet'']))
        (\<lambda>_. instantiate failing_factory_env ''torchvision.models'' ''resnet18'')"
    using model_from_factory_dot [OF f, of failing_factory_env "''torchvision.models''" "PStr ''imagenet''"]
    by simp
  then show ?thesis
    by (intro eff_eqI)
      (simp_all add: trace_andthen outcome_andthen trace_instantiate outcome_instantiate
        failing_factory_env_def sample_env_def)
qed

lemma trace_getitem [simp]: "trace (getitem c key) = [Get_item c key]"
  by (simp add: getitem_def)

lemma trace_model_from_desc:
  "trace (model_from_desc env d) = [Enter ''model_from_desc'' [d], Model_init d True True]"
  by (simp add: model_from_desc_def trace_andthen)

lemma outcome_model_from_desc:
  "outcome (model_from_desc env d) = new_Model env d True True"
  by (simp add: model_from_desc_def outcome_andthen)

lemma all_trace_andthen:
  assumes "\<forall>ev\<in>set (trace m). P ev"
    and "\<And>x. outcome m = Inr x \<Longrightarrow> \<forall>ev\<in>set (trace (f x)). P ev"
  shows "\<forall>ev\<in>set (trace (andthen m f)). P ev"
  using assms by (cases "outcome m") (auto simp: trace_andthen)

lemma all_trace_case_prod:
  assumes "\<And>a b. x = (a, b) \<Longrightarrow> \<forall>ev\<in>set (trace (f a b)). P ev"
  shows "\<forall>ev\<in>set (trace (case x of (a, b) \<Rightarrow> f a b)). P ev"
  using assms by (cases x) simp

lemma all_trace_getitem: "P (Get_item c k) \<Longrightarrow> \<forall>ev\<in>set (trace (getitem c k)). P ev"
  by simp

lemma all_trace_ret: "\<forall>ev\<in>set (trace (ret x)). P ev"
  by simp

lemma all_trace_emit: "P e \<Longrightarrow> \<forall>ev\<in>set (trace (emit e)). P ev"
  by simp

lemma all_trace_perform: "P e \<Longrightarrow> \<forall>ev\<in>set (trace (perform e r)). P ev"
  by simp

lemma all_conf_vars:
  assumes "\<And>c. P (Get_item c ''loader'')" "\<And>c. P (Get_item c ''dataset'')"
    "\<And>c. P (Get_item c ''name'')" "\<And>c. P (Get_item c ''model_factory_spec'')"
    "\<And>c. P (Get_item c ''model_desc'')"
    "\<And>c. \<not> truthy fin \<Longrightarrow> P (Get_item c ''final_desc_filename'')"
    "\<And>c. \<not> truthy fin \<Longrightarrow> P (Get_item c ''full_desc_filename'')"
  shows "\<forall>ev\<in>set (trace (create_model_conf_vars conf fin ful)). P ev"
proof (cases "truthy fin")
  case True
  then show ?thesis
    unfolding create_model_conf_vars_def
    by (simp only: if_True if_False not_True_eq_False not_False_eq_True)
      (intro all_trace_andthen all_trace_case_prod all_trace_getitem all_trace_ret assms)
next
  case False
  then show ?thesis
    unfolding create_model_conf_vars_def
    by (simp only: if_True if_False not_True_eq_False not_False_eq_True)
      (intro all_trace_andthen all_trace_case_prod all_trace_getitem all_trace_ret assms False)
qed

lemma conf_vars_explicit:
  assumes "truthy fin"
    and "outcome (create_model_conf_vars conf fin ful) = Inr (ds, a, b, spec, cmd)"
  shows "a = fin \<and> b = ful"
proof -
  from assms(2) show ?thesis
    unfolding create_model_conf_vars_def
    by (simp add: assms(1) outcome_andthen split: sum.splits)
qed

lemma events_instantiate:
  "ev \<in> set (trace (instantiate env m f)) \<Longrightarrow> factory_path_event ev \<and> \<not> desc_path_event ev"
  by (auto simp: trace_instantiate split: sum.splits if_splits)

lemma events_model_from_factory:
  assumes "ev \<in> set (trace (model_from_factory env spec ds))"
  shows "factory_path_event ev \<and> \<not> desc_path_event ev"
proof (cases spec)
  case (PStr s)
  show ?thesis
  proof (cases "CHR ''.'' \<in> set s")
    case True
    then obtain m f where s: "s = m @ CHR ''.'' # f" and f: "CHR ''.'' \<notin> set f"
      using spec_with_dot by blast
    have "trace (model_from_factory env spec ds) =
        Enter ''model_from_factory'' [spec, ds] # trace (instantiate env m f)"
      using model_from_factory_dot [OF f, of env m ds] by (simp add: PStr s trace_andthen)
    with assms show ?thesis by (auto dest: events_instantiate)
  next
    case False
    have "trace (model_from_factory env spec ds) =
        Enter ''model_from_factory'' [spec, ds] # Enter ''_default_module_name'' [ds, PStr s] #
        (case outcome (default_module_name ds s) of
           Inl e \<Rightarrow> []
         | Inr m \<Rightarrow> trace (instantiate env m s))"
      using model_from_factory_no_dot [OF False, of env ds]
      by (simp add: PStr trace_andthen outcome_andthen trace_default_module_name)
    with assms show ?thesis by (auto dest: events_instantiate split: sum.splits)
  qed
qed (use assms in \<open>auto simp: model_from_factory_def trace_andthen\<close>)

lemma trace_model_from_factory_head:
  "\<exists>rest. trace (model_from_factory env spec ds) = Enter ''model_from_factory'' [spec, ds] # rest"
  by (simp add: model_from_factory_def trace_andthen)

lemma events_log_model_desc:
  assumes "ev \<in> set (trace (log_model_desc env cmd model))"
  shows "ev = Cells_len model \<or>
     (\<exists>c k. ev = Get_item c k \<and> k \<in> {''init_node_ch'', ''n_cells'', ''n_reductions'', ''n_nodes''}) \<or>
     (\<exists>d. ev = Logger_info d \<and> desc_path_event ev \<and> \<not> factory_path_event ev)"
proof -
  have "\<forall>ev\<in>set (trace (log_model_desc env cmd model)).
      ev = Cells_len model \<or>
      (\<exists>c k. ev = Get_item c k \<and> k \<in> {''init_node_ch'', ''n_cells'', ''n_reductions'', ''n_nodes''}) \<or>
      (\<exists>d. ev = Logger_info d \<and> desc_path_event ev \<and> \<not> factory_path_event ev)"
    unfolding log_model_desc_def
    by (intro all_trace_andthen all_trace_getitem all_trace_perform all_trace_emit) simp_all
  with assms show ?thesis by blast
qed

lemma create_model_conf_raises:
  assumes "outcome (create_model_conf_vars conf fin ful) = Inl e"
  shows "create_model env conf b fin ful =
    (Enter ''create_model'' [conf, b, fin, ful] # trace (create_model_conf_vars conf fin ful), Inl e)"
  using assms
  by (intro eff_eqI) (simp_all add: create_model_def trace_andthen outcome_andthen)

lemma create_model_factory_path:
  assumes "outcome (create_model_conf_vars conf fin ful) = Inr (ds, fin', ful', spec, cmd)"
    and "truthy spec"
  shows "create_model env conf b fin ful =
    (Enter ''create_model'' [conf, b, fin, ful] # trace (create_model_conf_vars conf fin ful)
       @ trace (model_from_factory env spec ds),
     outcome (model_from_factory env spec ds))"
  using assms
  by (intro eff_eqI) (simp_all add: create_model_def trace_andthen outcome_andthen)

lemma create_model_desc_path_trace:
  assumes "outcome (create_model_conf_vars conf fin ful) = Inr (ds, fin', ful', spec, cmd)"
    and "\<not> truthy spec"
  shows "trace (create_model env conf b fin ful) =
    Enter ''create_model'' [conf, b, fin, ful] # trace (create_model_conf_vars conf fin ful) @
    ModelDesc_load fin' #
    (case load_desc env fin' of
       Inl e \<Rightarrow> []
     | Inr template \<Rightarrow>
         Builder_build b cmd template #
         (case build_desc env b cmd template of
            Inl e \<Rightarrow> []
          | Inr desc \<Rightarrow>
              Desc_save desc ful' #
              (case save_desc env desc ful' of
                 Inl e \<Rightarrow> []
               | Inr u \<Rightarrow>
                   Enter ''model_from_desc'' [desc] # Model_init desc True True #
                   (case new_Model env desc True True of
                      Inl e \<Rightarrow> []
                    | Inr model \<Rightarrow> trace (log_model_desc env cmd model)))))"
  using assms
  by (simp add: create_model_def trace_andthen outcome_andthen trace_model_from_desc
      outcome_model_from_desc split: sum.splits)

lemma create_model_desc_path_outcome:
  assumes "outcome (create_model_conf_vars conf fin ful) = Inr (ds, fin', ful', spec, cmd)"
    and "\<not> truthy spec"
  shows "outcome (create_model env conf b fin ful) =
    (case load_desc env fin' of
       Inl e \<Rightarrow> Inl e
     | Inr template \<Rightarrow>
         (case build_desc env b cmd template of
            Inl e \<Rightarrow> Inl e
          | Inr desc \<Rightarrow>
              (case save_desc env desc ful' of
                 Inl e \<Rightarrow> Inl e
               | Inr u \<Rightarrow>
                   (case new_Model env desc True True of
                      Inl e \<Rightarrow> Inl e
                    | Inr model \<Rightarrow>
                        (case outcome (log_model_desc env cmd model) of
                           Inl e \<Rightarrow> Inl e
                         | Inr u \<Rightarrow> Inr model)))))"
  using assms
  by (simp add: create_model_def outcome_andthen outcome_model_from_desc split: sum.splits)

lemma all_model_from_factory:
  assumes "\<And>ev. factory_path_event ev \<Longrightarrow> \<not> desc_path_event ev \<Longrightarrow> P ev"
  shows "\<forall>ev\<in>set (trace (model_from_factory env spec ds)). P ev"
proof
  fix ev assume "ev \<in> set (trace (model_from_factory env spec ds))"
  from events_model_from_factory [OF this] show "P ev" by (simp add: assms)
qed

lemma all_log_model_desc:
  assumes "P (Cells_len model)"
    "\<And>c. P (Get_item c ''init_node_ch'')" "\<And>c. P (Get_item c ''n_cells'')"
    "\<And>c. P (Get_item c ''n_reductions'')" "\<And>c. P (Get_item c ''n_nodes'')"
    "\<And>d. desc_path_event (Logger_info d) \<Longrightarrow> \<not> factory_path_event (Logger_info d)
        \<Longrightarrow> P (Logger_info d)"
  shows "\<forall>ev\<in>set (trace (log_model_desc env cmd model)). P ev"
  unfolding log_model_desc_def
  by (intro all_trace_andthen all_trace_getitem all_trace_perform all_trace_emit assms) simp_all

lemma all_create_model:
  assumes "P (Enter ''create_model'' [conf, b, fin, ful])"
    "\<And>c. P (Get_item c ''loader'')" "\<And>c. P (Get_item c ''dataset'')"
    "\<And>c. P (Get_item c ''name'')" "\<And>c. P (Get_item c ''model_factory_spec'')"
    "\<And>c. P (Get_item c ''model_desc'')"
    "\<And>c. \<not> truthy fin \<Longrightarrow> P (Get_item c ''final_desc_filename'')"
    "\<And>c. \<not> truthy fin \<Longrightarrow> P (Get_item c ''full_desc_filename'')"
    "\<And>c. P (Get_item c ''init_node_ch'')" "\<And>c. P (Get_item c ''n_cells'')"
    "\<And>c. P (Get_item c ''n_reductions'')" "\<And>c. P (Get_item c ''n_nodes'')"
    "\<And>ev. factory_path_event ev \<Longrightarrow> \<not> desc_path_event ev \<Longrightarrow> P ev"
    "\<And>ev. desc_path_event ev \<Longrightarrow> \<not> factory_path_event ev \<Longrightarrow> P ev"
  shows "\<forall>ev\<in>set (trace (create_model env conf b fin ful)). P ev"
proof -
  have cv: "\<forall>ev\<in>set (trace (create_model_conf_vars conf fin ful)). P ev"
    by (rule all_conf_vars) (rule assms; assumption)+
  have mff: "\<forall>ev\<in>set (trace (model_from_factory env spec ds)). P ev" for spec ds
    by (rule all_model_from_factory) (rule assms)
  have mfd: "\<forall>ev\<in>set (trace (model_from_desc env d)). P ev" for d
    by (simp add: trace_model_from_desc assms(14))
  have lg: "\<forall>ev\<in>set (trace (log_model_desc env cmd model)). P ev" for cmd model
    by (rule all_log_model_desc) (rule assms; simp)+
  have rest: "\<forall>ev\<in>set (trace
      (case x of (dataset_name, final_desc_filename, full_desc_filename,
           model_factory_spec, conf_model_desc) \<Rightarrow>
     if truthy model_factory_spec then
       model_from_factory env model_factory_spec dataset_name
     else
       andthen (perform (ModelDesc_load final_desc_filename)
                  (load_desc env final_desc_filename)) (\<lambda>template_model_desc.
       andthen (perform (Builder_build b conf_model_desc template_model_desc)
                  (build_desc env b conf_model_desc template_model_desc))
         (\<lambda>model_desc.
       andthen (perform (Desc_save model_desc full_desc_filename)
                  (save_desc env model_desc full_desc_filename)) (\<lambda>_.
       andthen (model_from_desc env model_desc) (\<lambda>model.
       andthen (log_model_desc env conf_model_desc model) (\<lambda>_.
       ret model))))))). P ev" for x
  proof -
    obtain ds fin' ful' spec cmd where x: "x = (ds, fin', ful', spec, cmd)"
      by (cases x) auto
    show ?thesis
    proof (cases "truthy spec")
      case True
      then show ?thesis using mff [of spec ds] by (simp only: x split_conv if_True)
    next
      case False
      have d: "P (ModelDesc_load f)" "P (Builder_build b1 c1 t1)" "P (Desc_save d1 f1)" for f b1 c1 t1 d1 f1
        by (rule assms(14); simp)+
      from False show ?thesis
        by (simp only: x split_conv if_False)
          (intro all_trace_andthen all_trace_perform all_trace_ret mfd lg d)
    qed
  qed
  show ?thesis
    unfolding create_model_def
    by (intro all_trace_andthen all_trace_emit assms(1) cv rest)
qed

lemma all_train_model:
  assumes "P (Enter ''train_model'' [conf, model, checkpoint])"
    "\<And>c. P (Get_item c ''loader'')" "\<And>c. P (Get_item c ''trainer'')"
    "\<And>c. P (Get_data c)" "\<And>c m k. P (Trainer_init c m k)" "\<And>t a b. P (Trainer_fit t a b)"
  shows "\<forall>ev\<in>set (trace (train_model env conf model checkpoint)). P ev"
proof -
  have rest: "\<forall>ev\<in>set (trace
      (case x of (train_dl, _, test_dl) \<Rightarrow>
         if train_dl \<noteq> PNone \<and> test_dl \<noteq> PNone then
           andthen (perform (Trainer_init conf_trainer model checkpoint)
                      (new_Trainer env conf_trainer model checkpoint)) (\<lambda>trainer.
           perform (Trainer_fit trainer train_dl test_dl) (fit env trainer train_dl test_dl))
         else raise (Exn ''AssertionError'' [] None))). P ev" for x conf_trainer
  proof -
    obtain a b c where x: "x = (a, b, c)" by (cases x) auto
    show ?thesis
      by (cases "a \<noteq> PNone \<and> c \<noteq> PNone")
        (auto simp: x trace_andthen assms split: sum.splits)
  qed
  show ?thesis
    unfolding train_model_def
    by (intro all_trace_andthen all_trace_emit all_trace_getitem all_trace_perform assms rest)
qed

lemma all_evaluate_conf_vars:
  assumes "\<And>c k. P (Get_item c k)"
  shows "\<forall>ev\<in>set (trace (evaluate_conf_vars conf)). P ev"
  unfolding evaluate_conf_vars_def
  by (intro all_trace_andthen all_trace_getitem all_trace_ret assms)

lemma not_saved_before_training:
  "\<forall>ev\<in>set (Enter ''evaluate'' [conf, b] # Logger_pushd ''eval_arch'' #
        trace (evaluate_conf_vars conf) @ trace (create_model env conf b PNone PNone) @
        Create_checkpoint cc resume # trace (train_model env conf model checkpoint)).
     (\<forall>m f. ev \<noteq> Metrics_save m f) \<and> (\<forall>f. ev \<noteq> Full_path f) \<and> (\<forall>m f. ev \<noteq> Save_model m f)"
proof -
  let ?P = "\<lambda>ev. (\<forall>m f. ev \<noteq> Metrics_save m f) \<and> (\<forall>f. ev \<noteq> Full_path f) \<and>
    (\<forall>m f. ev \<noteq> Save_model m f)"
  have 1: "\<forall>ev\<in>set (trace (evaluate_conf_vars conf)). ?P ev"
    by (rule all_evaluate_conf_vars) simp
  have 2: "\<forall>ev\<in>set (trace (create_model env conf b PNone PNone)). ?P ev"
    by (rule all_create_model) auto
  have 3: "\<forall>ev\<in>set (trace (train_model env conf model checkpoint)). ?P ev"
    by (rule all_train_model) simp_all
  from 1 2 3 show ?thesis by auto
qed

subsection \<open>The sample run\<close>

lemma outcome_getitem_sample:
  "outcome (getitem (sample_conf spec mf) ''checkpoint'') = Inr (PDict [])"
  "outcome (getitem (sample_conf spec mf) ''resume'') = Inr (PBool True)"
  "outcome (getitem (sample_conf spec mf) ''model_filename'') = Inr (PStr mf)"
  "outcome (getitem (sample_conf spec mf) ''metric_filename'') = Inr (PStr ''metrics.yaml'')"
  "outcome (getitem (sample_conf spec mf) ''final_desc_filename'') = Inr (PStr ''final.yaml'')"
  "outcome (getitem (sample_conf spec mf) ''full_desc_filename'') = Inr (PStr ''full.yaml'')"
  "outcome (getitem (sample_conf spec mf) ''model_factory_spec'') = Inr (PStr spec)"
  "outcome (getitem (sample_conf spec mf) ''model_desc'') = Inr sample_model_desc"
  "outcome (getitem (sample_conf spec mf) ''loader'') = Inr sample_loader"
  "outcome (getitem (sample_conf spec mf) ''trainer'') = Inr (PDict [])"
  "outcome (getitem sample_loader ''dataset'') = Inr (PDict [(''name'', PStr ''cifar10'')])"
  "outcome (getitem (PDict [(''name'', PStr ''cifar10'')]) ''name'') = Inr (PStr ''cifar10'')"
  "outcome (getitem sample_model_desc ''init_node_ch'') = Inr (PInt 36)"
  "outcome (getitem sample_model_desc ''n_cells'') = Inr (PInt 20)"
  "outcome (getitem sample_model_desc ''n_reductions'') = Inr (PInt 2)"
  "outcome (getitem sample_model_desc ''n_nodes'') = Inr (PInt 4)"
  by (simp_all add: getitem_def sample_conf_def sample_loader_def sample_model_desc_def)

lemma sample_create_model_conf_vars:
  "outcome (create_model_conf_vars (sample_conf spec mf) PNone PNone) =
     Inr (PStr ''cifar10'', PStr ''final.yaml'', PStr ''full.yaml'', PStr spec, sample_model_desc)"
  "outcome (create_model_conf_vars (sample_conf spec mf) (PStr ''arch.yaml'') ful) =
     Inr (PStr ''cifar10'', PStr ''arch.yaml'', ful, PStr spec, sample_model_desc)"
  by (simp_all add: create_model_conf_vars_def outcome_andthen outcome_getitem_sample)

lemma sample_evaluate_conf_vars:
  "outcome (evaluate_conf_vars (sample_conf spec mf)) =
     Inr (PDict [], PBool True, PStr mf, PStr ''metrics.yaml'')"
  by (simp add: evaluate_conf_vars_def outcome_andthen outcome_getitem_sample)

lemma sample_log_model_desc:
  "outcome (log_model_desc sample_env sample_model_desc model) = Inr ()"
  by (simp add: log_model_desc_def outcome_andthen outcome_getitem_sample sample_env_def)

lemma sample_create_model:
  "outcome (create_model sample_env (sample_conf [] mf) b PNone PNone) = Inr (PObj 6)"
proof -
  have e: "load_desc sample_env (PStr ''final.yaml'') = Inr (PObj 4)"
    "build_desc sample_env b sample_model_desc (PObj 4) = Inr (PObj 5)"
    "save_desc sample_env (PObj 5) (PStr ''full.yaml'') = Inr PNone"
    "new_Model sample_env (PObj 5) True True = Inr (PObj 6)"
    by (simp_all add: sample_env_def)
  have f: "\<not> truthy (PStr [])" by simp
  from create_model_desc_path_outcome [OF sample_create_model_conf_vars(1) [of "[]" mf] f,
      where env = sample_env and b = b]
  show ?thesis by (simp add: e sample_log_model_desc)
qed

lemma sample_train_model:
  "outcome (train_model sample_env (sample_conf spec mf) model checkpoint) = Inr (PObj 11)"
  by (simp add: train_model_def outcome_andthen outcome_getitem_sample sample_env_def)

subsection \<open>The factory call\<close>

text \<open>
  C4, as amended: when the factory function has been found and is called with no
  arguments, an exception it raises is the outcome of \<open>model_from_factory\<close> as it is,
  with nothing wrapped around it, and the call of the factory is the last call made.
\<close>

theorem factory_failure_propagates_unchanged:
  assumes "Invoke func \<in> set (trace (model_from_factory env (PStr s) ds))"
    and "call_function env func = Inl e"
  shows "outcome (model_from_factory env (PStr s) ds) = Inl e \<and>
    last (trace (model_from_factory env (PStr s) ds)) = Invoke func"
proof (cases "CHR ''.'' \<in> set s")
  case True
  then obtain m f where s: "s = m @ CHR ''.'' # f" and f: "CHR ''.'' \<notin> set f"
    using spec_with_dot by blast
  have t: "trace (model_from_factory env (PStr s) ds) =
      Enter ''model_from_factory'' [PStr s, ds] # trace (instantiate env m f)"
    and o: "outcome (model_from_factory env (PStr s) ds) = outcome (instantiate env m f)"
    using model_from_factory_dot [OF f, of env m ds]
    by (simp_all add: s trace_andthen outcome_andthen)
  from assms(1) have i: "Invoke func \<in> set (trace (instantiate env m f))"
    by (simp add: t)
  then have "trace (instantiate env m f) \<noteq> []" by auto
  with instantiate_factory_raises [OF i assms(2)] show ?thesis
    by (simp add: t o)
next
  case False
  note e = model_from_factory_no_dot [OF False, of env ds]
  show ?thesis
  proof (cases "outcome (default_module_name ds s)")
    case (Inl x)
    then have "trace (model_from_factory env (PStr s) ds) =
        [Enter ''model_from_factory'' [PStr s, ds], Enter ''_default_module_name'' [ds, PStr s]]"
      by (simp add: e trace_andthen outcome_andthen trace_default_module_name)
    with assms(1) show ?thesis by simp
  next
    case (Inr m)
    then have t: "trace (model_from_factory env (PStr s) ds) =
        Enter ''model_from_factory'' [PStr s, ds] #
        Enter ''_default_module_name'' [ds, PStr s] # trace (instantiate env m s)"
      and o: "outcome (model_from_factory env (PStr s) ds) = outcome (instantiate env m s)"
      by (simp_all add: e trace_andthen outcome_andthen trace_default_module_name)
    from assms(1) have i: "Invoke func \<in> set (trace (instantiate env m s))"
      by (simp add: t)
    then have "trace (instantiate env m s) \<noteq> []" by auto
    with instantiate_factory_raises [OF i assms(2)] show ?thesis
      by (simp add: t o)
  qed
qed

theorem factory_failure_propagates_unchanged_witness:
  "Invoke (PObj 2) \<in> set (trace (model_from_factory failing_factory_env
      (PStr ''torchvision.models.resnet18'') (PStr ''imagenet''))) \<and>
   call_function failing_factory_env (PObj 2) =
     Inl (Exn ''RuntimeError'' ''CUDA out of memory'' None) \<and>
   outcome (model_from_factory failing_factory_env
      (PStr ''torchvision.models.resnet18'') (PStr ''imagenet'')) =
     Inl (Exn ''RuntimeError'' ''CUDA out of memory'' None) \<and>
   last (trace (model_from_factory failing_factory_env
      (PStr ''torchvision.models.resnet18'') (PStr ''imagenet''))) = Invoke (PObj 2)"
proof -
  have i: "Invoke (PObj 2) \<in> set (trace (model_from_factory failing_factory_env
      (PStr ''torchvision.models.resnet18'') (PStr ''imagenet'')))"
    by (simp add: failing_factory_run)
  have c: "call_function failing_factory_env (PObj 2) =
     Inl (Exn ''RuntimeError'' ''CUDA out of memory'' None)"
    by (simp add: failing_factory_env_def)
  from factory_failure_propagates_unchanged [OF i c] i c show ?thesis by blast
qed

text \<open>
  C4 as stated fails: a factory that raises \<open>RuntimeError\<close> makes
  \<open>model_from_factory\<close> raise that same \<open>RuntimeError\<close>, which is not a
  \<open>ModelConstructionFailed\<close> wrapping it.
\<close>

theorem construction_failure_counterexample:
  "call_function failing_factory_env (PObj 2) =
     Inl (Exn ''RuntimeError'' ''CUDA out of memory'' None) \<and>
   model_from_factory failing_factory_env (PStr ''torchvision.models.resnet18'') (PStr ''imagenet'') =
     ([Enter ''model_from_factory'' [PStr ''torchvision.models.resnet18'', PStr ''imagenet''],
       Import_module ''torchvision.models'', Get_attr (PObj 1) ''resnet18'', Invoke (PObj 2)],
      Inl (Exn ''RuntimeError'' ''CUDA out of memory'' None)) \<and>
   \<not> spec_ModelConstructionFailed (Exn ''RuntimeError'' ''CUDA out of memory'' None)
       (Exn ''RuntimeError'' ''CUDA out of memory'' None)"
proof (intro conjI)
  show "call_function failing_factory_env (PObj 2) =
     Inl (Exn ''RuntimeError'' ''CUDA out of memory'' None)"
    by (simp add: failing_factory_env_def)
  show "model_from_factory failing_factory_env (PStr ''torchvision.models.resnet18'') (PStr ''imagenet'') =
     ([Enter ''model_from_factory'' [PStr ''torchvision.models.resnet18'', PStr ''imagenet''],
       Import_module ''torchvision.models'', Get_attr (PObj 1) ''resnet18'', Invoke (PObj 2)],
      Inl (Exn ''RuntimeError'' ''CUDA out of memory'' None))"
    by (rule failing_factory_run)
  show "\<not> spec_ModelConstructionFailed (Exn ''RuntimeError'' ''CUDA out of memory'' None)
       (Exn ''RuntimeError'' ''CUDA out of memory'' None)"
    by (simp add: spec_ModelConstructionFailed_def)
qed

subsection \<open>The two paths of create-model\<close>

text \<open>
  C5: in a call of \<open>create_model\<close> whose configuration gives the values of the
  region \<open>conf vars\<close>, exactly one of the two paths is taken: with a non-empty
  \<open>model_factory_spec\<close>, \<open>model_from_factory\<close> is called with the spec and the
  dataset name, its outcome is the outcome, and no call of the description path (loading,
  building or saving a description, building a model from it) is made; with an empty one,
  the description is loaded and neither \<open>model_from_factory\<close> nor anything it calls
  is called.
\<close>

theorem create_model_takes_one_path:
  assumes "outcome (create_model_conf_vars conf fin ful) = Inr (ds, fin', ful', spec, cmd)"
  shows "(truthy spec \<longrightarrow>
      Enter ''model_from_factory'' [spec, ds] \<in> set (trace (create_model env conf b fin ful)) \<and>
      (\<forall>ev\<in>set (trace (create_model env conf b fin ful)). \<not> desc_path_event ev) \<and>
      outcome (create_model env conf b fin ful) = outcome (model_from_factory env spec ds)) \<and>
    (\<not> truthy spec \<longrightarrow>
      ModelDesc_load fin' \<in> set (trace (create_model env conf b fin ful)) \<and>
      (\<forall>ev\<in>set (trace (create_model env conf b fin ful)). \<not> factory_path_event ev))"
proof (intro conjI impI)
  assume t: "truthy spec"
  note e = create_model_factory_path [OF assms t, of env b]
  obtain rest where r: "trace (model_from_factory env spec ds) =
      Enter ''model_from_factory'' [spec, ds] # rest"
    using trace_model_from_factory_head by blast
  show "Enter ''model_from_factory'' [spec, ds] \<in> set (trace (create_model env conf b fin ful))"
    by (simp add: e r)
  show "outcome (create_model env conf b fin ful) = outcome (model_from_factory env spec ds)"
    by (simp add: e)
  have "\<forall>ev\<in>set (trace (create_model_conf_vars conf fin ful)). \<not> desc_path_event ev"
    by (rule all_conf_vars) simp_all
  moreover have "\<forall>ev\<in>set (trace (model_from_factory env spec ds)). \<not> desc_path_event ev"
    by (rule all_model_from_factory)
  ultimately show "\<forall>ev\<in>set (trace (create_model env conf b fin ful)). \<not> desc_path_event ev"
    by (auto simp: e)
next
  assume f: "\<not> truthy spec"
  note e = create_model_desc_path_trace [OF assms f, of env b]
  show "ModelDesc_load fin' \<in> set (trace (create_model env conf b fin ful))"
    by (simp add: e)
  have cv: "\<forall>ev\<in>set (trace (create_model_conf_vars conf fin ful)). \<not> factory_path_event ev"
    by (rule all_conf_vars) simp_all
  have lg: "\<forall>ev\<in>set (trace (log_model_desc env cmd model)). \<not> factory_path_event ev" for model
    by (rule all_log_model_desc) simp_all
  show "\<forall>ev\<in>set (trace (create_model env conf b fin ful)). \<not> factory_path_event ev"
    using cv lg by (auto simp: e split: sum.splits)
qed

theorem create_model_takes_one_path_witness:
  "Enter ''model_from_factory'' [PStr ''resnet34'', PStr ''cifar10''] \<in>
     set (trace (create_model sample_env (sample_conf ''resnet34'' []) (PObj 20) PNone PNone)) \<and>
   list_all (\<lambda>ev. \<not> desc_path_event ev)
     (trace (create_model sample_env (sample_conf ''resnet34'' []) (PObj 20) PNone PNone)) \<and>
   ModelDesc_load (PStr ''final.yaml'') \<in>
     set (trace (create_model sample_env (sample_conf [] []) (PObj 20) PNone PNone)) \<and>
   list_all (\<lambda>ev. \<not> factory_path_event ev)
     (trace (create_model sample_env (sample_conf [] []) (PObj 20) PNone PNone))"
  using create_model_takes_one_path [OF sample_create_model_conf_vars(1) [of "''resnet34''" "[]"],
      where env = sample_env and b = "PObj 20"]
    create_model_takes_one_path [OF sample_create_model_conf_vars(1) [of "[]" "[]"],
      where env = sample_env and b = "PObj 20"]
  by (simp add: list_all_iff)

text \<open>
  C6: on the description path, \<open>create_model\<close> loads the template from the final
  description file, calls the builder with that template, then saves the built description
  to the full description file, whatever the two file names are (also when they are the
  same), and only then builds the model: \<open>Model\<close> of exactly that description, with
  drop-path and affine both \<open>True\<close>; that model is the value returned.
\<close>

theorem create_model_description_path:
  assumes "outcome (create_model_conf_vars conf fin ful) = Inr (ds, fin', ful', spec, cmd)"
    and "\<not> truthy spec"
  shows "trace (create_model env conf b fin ful) =
      Enter ''create_model'' [conf, b, fin, ful] # trace (create_model_conf_vars conf fin ful) @
      ModelDesc_load fin' #
      (case load_desc env fin' of
         Inl e \<Rightarrow> []
       | Inr template \<Rightarrow>
           Builder_build b cmd template #
           (case build_desc env b cmd template of
              Inl e \<Rightarrow> []
            | Inr desc \<Rightarrow>
                Desc_save desc ful' #
                (case save_desc env desc ful' of
                   Inl e \<Rightarrow> []
                 | Inr u \<Rightarrow>
                     Enter ''model_from_desc'' [desc] # Model_init desc True True #
                     (case new_Model env desc True True of
                        Inl e \<Rightarrow> []
                      | Inr model \<Rightarrow> trace (log_model_desc env cmd model))))) \<and>
    outcome (create_model env conf b fin ful) =
      (case load_desc env fin' of
         Inl e \<Rightarrow> Inl e
       | Inr template \<Rightarrow>
           (case build_desc env b cmd template of
              Inl e \<Rightarrow> Inl e
            | Inr desc \<Rightarrow>
                (case save_desc env desc ful' of
                   Inl e \<Rightarrow> Inl e
                 | Inr u \<Rightarrow>
                     (case new_Model env desc True True of
                        Inl e \<Rightarrow> Inl e
                      | Inr model \<Rightarrow>
                          (case outcome (log_model_desc env cmd model) of
                             Inl e \<Rightarrow> Inl e
                           | Inr u \<Rightarrow> Inr model)))))"
  using create_model_desc_path_trace [OF assms] create_model_desc_path_outcome [OF assms]
  by (rule conjI)

theorem create_model_description_path_witness:
  "trace (create_model sample_env (sample_conf [] []) (PObj 20)
            (PStr ''arch.yaml'') (PStr ''arch.yaml'')) =
     Enter ''create_model''
       [sample_conf [] [], PObj 20, PStr ''arch.yaml'', PStr ''arch.yaml''] #
     trace (create_model_conf_vars (sample_conf [] []) (PStr ''arch.yaml'') (PStr ''arch.yaml'')) @
     [ModelDesc_load (PStr ''arch.yaml''),
      Builder_build (PObj 20) sample_model_desc (PObj 4),
      Desc_save (PObj 5) (PStr ''arch.yaml''),
      Enter ''model_from_desc'' [PObj 5],
      Model_init (PObj 5) True True] @
     trace (log_model_desc sample_env sample_model_desc (PObj 6)) \<and>
   outcome (create_model sample_env (sample_conf [] []) (PObj 20)
              (PStr ''arch.yaml'') (PStr ''arch.yaml'')) = Inr (PObj 6)"
proof -
  have e: "load_desc sample_env (PStr ''arch.yaml'') = Inr (PObj 4)"
    "build_desc sample_env (PObj 20) sample_model_desc (PObj 4) = Inr (PObj 5)"
    "save_desc sample_env (PObj 5) (PStr ''arch.yaml'') = Inr PNone"
    "new_Model sample_env (PObj 5) True True = Inr (PObj 6)"
    by (simp_all add: sample_env_def)
  have f: "\<not> truthy (PStr [])" by simp
  from create_model_description_path
      [OF sample_create_model_conf_vars(2) [of "[]" "[]" "PStr ''arch.yaml''"] f,
       where env = sample_env and b = "PObj 20"]
  show ?thesis by (simp add: e sample_log_model_desc)
qed

text \<open>
  C10: when \<open>create_model\<close> is called with a non-empty \<open>final_desc_filename\<close>,
  the keys \<open>final_desc_filename\<close> and \<open>full_desc_filename\<close> of the configuration
  are not read, both file names keep the values passed (\<open>None\<close> by default for
  \<open>full_desc_filename\<close>), and on the description path the built description is saved
  to the passed \<open>full_desc_filename\<close> and to nothing else.
\<close>

theorem explicit_final_desc_filename:
  assumes "truthy fin"
  shows "(\<forall>c. Get_item c ''final_desc_filename'' \<notin> set (trace (create_model env conf b fin ful))) \<and>
    (\<forall>c. Get_item c ''full_desc_filename'' \<notin> set (trace (create_model env conf b fin ful))) \<and>
    (\<forall>ds fin' ful' spec cmd.
       outcome (create_model_conf_vars conf fin ful) = Inr (ds, fin', ful', spec, cmd) \<longrightarrow>
       fin' = fin \<and> ful' = ful \<and>
       (\<not> truthy spec \<longrightarrow>
          (\<forall>d f. Desc_save d f \<in> set (trace (create_model env conf b fin ful)) \<longrightarrow> f = ful) \<and>
          (\<forall>template desc.
             load_desc env fin = Inr template \<and> build_desc env b cmd template = Inr desc \<longrightarrow>
             Desc_save desc ful \<in> set (trace (create_model env conf b fin ful)))))"
proof (intro conjI allI impI)
  have "\<forall>ev\<in>set (trace (create_model env conf b fin ful)).
      \<forall>c. ev \<noteq> Get_item c ''final_desc_filename'' \<and> ev \<noteq> Get_item c ''full_desc_filename''"
    by (rule all_create_model) (use assms in auto)
  then show "Get_item c ''final_desc_filename'' \<notin> set (trace (create_model env conf b fin ful))"
    and "Get_item c ''full_desc_filename'' \<notin> set (trace (create_model env conf b fin ful))" for c
    by blast+
next
  fix ds fin' ful' spec cmd
  assume cv: "outcome (create_model_conf_vars conf fin ful) = Inr (ds, fin', ful', spec, cmd)"
  from conf_vars_explicit [OF assms cv] show eq: "fin' = fin" "ful' = ful" by simp_all
  assume f: "\<not> truthy spec"
  note e = create_model_desc_path_trace [OF cv f, of env b]
  have cvt: "\<forall>ev\<in>set (trace (create_model_conf_vars conf fin ful)). \<forall>d f. ev \<noteq> Desc_save d f"
    by (rule all_conf_vars) simp_all
  have lg: "\<forall>ev\<in>set (trace (log_model_desc env cmd model)). \<forall>d f. ev \<noteq> Desc_save d f" for model
    by (rule all_log_model_desc) simp_all
  have cvt': "Desc_save d f \<notin> set (trace (create_model_conf_vars conf fin ful))" for d f
    using cvt by blast
  have lg': "Desc_save d f \<notin> set (trace (log_model_desc env cmd model))" for model d f
    using lg by blast
  show "f = ful" if "Desc_save d f \<in> set (trace (create_model env conf b fin ful))" for d f
    using that by (auto simp: e eq cvt' lg' split: sum.splits)
  show "Desc_save desc ful \<in> set (trace (create_model env conf b fin ful))"
    if "load_desc env fin = Inr template \<and> build_desc env b cmd template = Inr desc"
    for template desc
    using that by (simp add: e eq)
qed

theorem explicit_final_desc_filename_witness:
  "Get_item (sample_conf [] []) ''final_desc_filename'' \<notin>
     set (trace (create_model sample_env (sample_conf [] []) (PObj 20) (PStr ''arch.yaml'') PNone)) \<and>
   Get_item (sample_conf [] []) ''full_desc_filename'' \<notin>
     set (trace (create_model sample_env (sample_conf [] []) (PObj 20) (PStr ''arch.yaml'') PNone)) \<and>
   Desc_save (PObj 5) PNone \<in>
     set (trace (create_model sample_env (sample_conf [] []) (PObj 20) (PStr ''arch.yaml'') PNone))"
proof -
  have t: "truthy (PStr ''arch.yaml'')" by simp
  have f: "\<not> truthy (PStr [])" by simp
  have e: "load_desc sample_env (PStr ''arch.yaml'') = Inr (PObj 4) \<and>
    build_desc sample_env (PObj 20) sample_model_desc (PObj 4) = Inr (PObj 5)"
    by (simp add: sample_env_def)
  note x = explicit_final_desc_filename [OF t,
      where conf = "sample_conf [] []" and env = sample_env and b = "PObj 20" and ful = PNone]
  from x have "Get_item (sample_conf [] []) ''final_desc_filename'' \<notin>
     set (trace (create_model sample_env (sample_conf [] []) (PObj 20) (PStr ''arch.yaml'') PNone))"
    by blast
  moreover from x have "Get_item (sample_conf [] []) ''full_desc_filename'' \<notin>
     set (trace (create_model sample_env (sample_conf [] []) (PObj 20) (PStr ''arch.yaml'') PNone))"
    by blast
  moreover from x sample_create_model_conf_vars(2) [where spec = "[]" and mf = "[]" and ful = PNone] f e
  have "Desc_save (PObj 5) PNone \<in>
     set (trace (create_model sample_env (sample_conf [] []) (PObj 20) (PStr ''arch.yaml'') PNone))"
    by blast
  ultimately show ?thesis by blast
qed

subsection \<open>Training and saving\<close>

text \<open>
  C8: \<open>train_model\<close> asserts that the train and the test iterator returned by
  \<open>get_data\<close> are both not \<open>None\<close> before it constructs the trainer: when one of
  them is \<open>None\<close> the outcome is the \<open>AssertionError\<close>, raised right after
  \<open>get_data\<close> and not caught, and no trainer is constructed; when both are there the
  assertion does not fail and the outcome is that of constructing the trainer and fitting
  it on the two iterators.
\<close>

theorem train_model_requires_iterators:
  assumes "outcome (getitem conf_train ''loader'') = Inr conf_loader"
    and "outcome (getitem conf_train ''trainer'') = Inr conf_trainer"
    and "get_data env conf_loader = Inr (train_dl, val_dl, test_dl)"
  shows "(train_dl = PNone \<or> test_dl = PNone \<longrightarrow>
      train_model env conf_train model checkpoint =
        ([Enter ''train_model'' [conf_train, model, checkpoint],
          Get_item conf_train ''loader'', Get_item conf_train ''trainer'',
          Get_data conf_loader],
         Inl (Exn ''AssertionError'' [] None))) \<and>
    (train_dl \<noteq> PNone \<and> test_dl \<noteq> PNone \<longrightarrow>
      trace (train_model env conf_train model checkpoint) =
        [Enter ''train_model'' [conf_train, model, checkpoint],
         Get_item conf_train ''loader'', Get_item conf_train ''trainer'',
         Get_data conf_loader, Trainer_init conf_trainer model checkpoint] @
        (case new_Trainer env conf_trainer model checkpoint of
           Inl e \<Rightarrow> []
         | Inr trainer \<Rightarrow> [Trainer_fit trainer train_dl test_dl]) \<and>
      outcome (train_model env conf_train model checkpoint) =
        (case new_Trainer env conf_trainer model checkpoint of
           Inl e \<Rightarrow> Inl e
         | Inr trainer \<Rightarrow> fit env trainer train_dl test_dl))"
    (is "(?missing \<longrightarrow> ?fails) \<and> (?present \<longrightarrow> ?calls \<and> ?result)")
proof (intro conjI impI)
  assume ?missing
  then show ?fails
    using assms
    by (intro eff_eqI) (auto simp: train_model_def trace_andthen outcome_andthen)
next
  assume ?present
  then show ?calls
    using assms
    by (simp add: train_model_def trace_andthen outcome_andthen split: sum.splits)
next
  assume ?present
  then show ?result
    using assms
    by (simp add: train_model_def outcome_andthen split: sum.splits)
qed

theorem train_model_requires_iterators_witness:
  "train_model no_test_data_env (sample_conf [] []) (PObj 6) (PObj 7) =
     ([Enter ''train_model'' [sample_conf [] [], PObj 6, PObj 7],
       Get_item (sample_conf [] []) ''loader'', Get_item (sample_conf [] []) ''trainer'',
       Get_data sample_loader],
      Inl (Exn ''AssertionError'' [] None)) \<and>
   trace (train_model sample_env (sample_conf [] []) (PObj 6) (PObj 7)) =
     [Enter ''train_model'' [sample_conf [] [], PObj 6, PObj 7],
      Get_item (sample_conf [] []) ''loader'', Get_item (sample_conf [] []) ''trainer'',
      Get_data sample_loader, Trainer_init (PDict []) (PObj 6) (PObj 7),
      Trainer_fit (PObj 10) (PObj 8) (PObj 9)] \<and>
   outcome (train_model sample_env (sample_conf [] []) (PObj 6) (PObj 7)) = Inr (PObj 11)"
proof -
  have g: "get_data no_test_data_env sample_loader = Inr (PObj 8, PNone, PNone)"
    by (simp add: no_test_data_env_def)
  have h: "get_data sample_env sample_loader = Inr (PObj 8, PNone, PObj 9)"
    by (simp add: sample_env_def)
  have n: "new_Trainer sample_env (PDict []) (PObj 6) (PObj 7) = Inr (PObj 10)"
    "fit sample_env (PObj 10) (PObj 8) (PObj 9) = Inr (PObj 11)"
    by (simp_all add: sample_env_def)
  note l = outcome_getitem_sample(9) [of "[]" "[]"]
  note t = outcome_getitem_sample(10) [of "[]" "[]"]
  from train_model_requires_iterators [OF l t g, where model = "PObj 6" and checkpoint = "PObj 7"]
    train_model_requires_iterators [OF l t h, where model = "PObj 6" and checkpoint = "PObj 7"]
  show ?thesis by (simp add: n)
qed

text \<open>
  C7: in a call of \<open>evaluate\<close> in which training completes, the next call saves the
  metrics to the configured metric file name, whatever the model file name is; nothing
  was saved before. After that, with a non-empty model file name the name is resolved by
  \<open>full_path\<close> and the model is saved to the resolved path; with an empty one neither
  call is made, nothing is raised, and the metrics are returned.
\<close>

theorem evaluate_persists_after_training:
  assumes "outcome (evaluate_conf_vars conf) = Inr (cc, resume, model_filename, metric_filename)"
    and "outcome (create_model env conf b PNone PNone) = Inr model"
    and "create_checkpoint env cc resume = Inr checkpoint"
    and "outcome (train_model env conf model checkpoint) = Inr metrics"
  shows "trace (evaluate env conf b) =
      (Enter ''evaluate'' [conf, b] # Logger_pushd ''eval_arch'' #
       trace (evaluate_conf_vars conf) @ trace (create_model env conf b PNone PNone) @
       Create_checkpoint cc resume # trace (train_model env conf model checkpoint)) @
      Metrics_save metrics metric_filename #
      (case save_metrics env metrics metric_filename of
         Inl e \<Rightarrow> []
       | Inr u \<Rightarrow>
           if truthy model_filename then
             Full_path model_filename #
             (case full_path env model_filename of
                Inl e \<Rightarrow> []
              | Inr path \<Rightarrow>
                  Save_model model path #
                  (case save_model env model path of
                     Inl e \<Rightarrow> []
                   | Inr u \<Rightarrow> [Logger_info [(''model_save_path'', path)], Logger_popd]))
           else [Logger_info [(''model_save_path'', model_filename)], Logger_popd]) \<and>
    outcome (evaluate env conf b) =
      (case save_metrics env metrics metric_filename of
         Inl e \<Rightarrow> Inl e
       | Inr u \<Rightarrow>
           if truthy model_filename then
             (case full_path env model_filename of
                Inl e \<Rightarrow> Inl e
              | Inr path \<Rightarrow>
                  (case save_model env model path of
                     Inl e \<Rightarrow> Inl e
                   | Inr u \<Rightarrow> Inr metrics))
           else Inr metrics) \<and>
    (\<forall>ev\<in>set (Enter ''evaluate'' [conf, b] # Logger_pushd ''eval_arch'' #
        trace (evaluate_conf_vars conf) @ trace (create_model env conf b PNone PNone) @
        Create_checkpoint cc resume # trace (train_model env conf model checkpoint)).
       (\<forall>m f. ev \<noteq> Metrics_save m f) \<and> (\<forall>f. ev \<noteq> Full_path f) \<and>
       (\<forall>m f. ev \<noteq> Save_model m f))"
    (is "?calls \<and> ?result \<and> ?nothing_saved_before")
proof (intro conjI)
  show ?calls
    using assms
    by (simp add: evaluate_def trace_andthen outcome_andthen split: sum.splits)
  show ?result
    using assms
    by (simp add: evaluate_def outcome_andthen split: sum.splits)
  show ?nothing_saved_before
    by (rule not_saved_before_training)
qed

theorem evaluate_persists_after_training_witness:
  "trace (evaluate sample_env (sample_conf [] []) (PObj 20)) =
     (Enter ''evaluate'' [sample_conf [] [], PObj 20] # Logger_pushd ''eval_arch'' #
      trace (evaluate_conf_vars (sample_conf [] [])) @
      trace (create_model sample_env (sample_conf [] []) (PObj 20) PNone PNone) @
      Create_checkpoint (PDict []) (PBool True) #
      trace (train_model sample_env (sample_conf [] []) (PObj 6) (PObj 7))) @
     [Metrics_save (PObj 11) (PStr ''metrics.yaml''),
      Logger_info [(''model_save_path'', PStr [])], Logger_popd] \<and>
   outcome (evaluate sample_env (sample_conf [] []) (PObj 20)) = Inr (PObj 11) \<and>
   trace (evaluate sample_env (sample_conf [] ''model.pt'') (PObj 20)) =
     (Enter ''evaluate'' [sample_conf [] ''model.pt'', PObj 20] # Logger_pushd ''eval_arch'' #
      trace (evaluate_conf_vars (sample_conf [] ''model.pt'')) @
      trace (create_model sample_env (sample_conf [] ''model.pt'') (PObj 20) PNone PNone) @
      Create_checkpoint (PDict []) (PBool True) #
      trace (train_model sample_env (sample_conf [] ''model.pt'') (PObj 6) (PObj 7))) @
     [Metrics_save (PObj 11) (PStr ''metrics.yaml''),
      Full_path (PStr ''model.pt''),
      Save_model (PObj 6) (PStr ''/work/model.pt''),
      Logger_info [(''model_save_path'', PStr ''/work/model.pt'')], Logger_popd] \<and>
   outcome (evaluate sample_env (sample_conf [] ''model.pt'') (PObj 20)) = Inr (PObj 11)"
proof -
  have c: "create_checkpoint sample_env (PDict []) (PBool True) = Inr (PObj 7)"
    by (simp add: sample_env_def)
  have s: "save_metrics sample_env (PObj 11) (PStr ''metrics.yaml'') = Inr PNone"
    "full_path sample_env (PStr ''model.pt'') = Inr (PStr ''/work/model.pt'')"
    "save_model sample_env (PObj 6) (PStr ''/work/model.pt'') = Inr PNone"
    by (simp_all add: sample_env_def)
  note a = evaluate_persists_after_training
      [OF sample_evaluate_conf_vars [of "[]" "[]"] sample_create_model [of "[]" "PObj 20"] c
        sample_train_model [of "[]" "[]" "PObj 6" "PObj 7"]]
  note b = evaluate_persists_after_training
      [OF sample_evaluate_conf_vars [of "[]" "''model.pt''"]
        sample_create_model [of "''model.pt''" "PObj 20"] c
        sample_train_model [of "[]" "''model.pt''" "PObj 6" "PObj 7"]]
  from a have "trace (evaluate sample_env (sample_conf [] []) (PObj 20)) =
     (Enter ''evaluate'' [sample_conf [] [], PObj 20] # Logger_pushd ''eval_arch'' #
      trace (evaluate_conf_vars (sample_conf [] [])) @
      trace (create_model sample_env (sample_conf [] []) (PObj 20) PNone PNone) @
      Create_checkpoint (PDict []) (PBool True) #
      trace (train_model sample_env (sample_conf [] []) (PObj 6) (PObj 7))) @
     [Metrics_save (PObj 11) (PStr ''metrics.yaml''),
      Logger_info [(''model_save_path'', PStr [])], Logger_popd]"
    and "outcome (evaluate sample_env (sample_conf [] []) (PObj 20)) = Inr (PObj 11)"
    by (simp_all add: s)
  moreover from b have "trace (evaluate sample_env (sample_conf [] ''model.pt'') (PObj 20)) =
     (Enter ''evaluate'' [sample_conf [] ''model.pt'', PObj 20] # Logger_pushd ''eval_arch'' #
      trace (evaluate_conf_vars (sample_conf [] ''model.pt'')) @
      trace (create_model sample_env (sample_conf [] ''model.pt'') (PObj 20) PNone PNone) @
      Create_checkpoint (PDict []) (PBool True) #
      trace (train_model sample_env (sample_conf [] ''model.pt'') (PObj 6) (PObj 7))) @
     [Metrics_save (PObj 11) (PStr ''metrics.yaml''),
      Full_path (PStr ''model.pt''),
      Save_model (PObj 6) (PStr ''/work/model.pt''),
      Logger_info [(''model_save_path'', PStr ''/work/model.pt'')], Logger_popd]"
    and "outcome (evaluate sample_env (sample_conf [] ''model.pt'') (PObj 20)) = Inr (PObj 11)"
    by (simp_all add: s)
  ultimately show ?thesis by blast
qed

end
